theory Spec2Isabelle
  imports Complex_Main "HOL-Library.Multiset"
begin

section \<open>Cross-validated penalised GLM: the orchestration of \<open>_glm_cv.py\<close>\<close>

text \<open>
  The development embeds \<open>GeneralizedLinearRegressorCV._validate_hyperparameters\<close> and
  \<open>GeneralizedLinearRegressorCV.fit\<close> (with its nested \<open>_fit_path\<close>) of
  \<open>src/glum/_glm_cv.py\<close>.

  Conventions.
  \<^item> Floating-point numbers are idealised as reals, without rounding. The non-finite values are
    kept where the file itself produces them or passes them on (type \<open>npfloat\<close>): the
    division of a weight vector by its sum, the weights that a job hands to its
    collaborators, the held-out deviances, their mean over the folds and its \<open>argmin\<close>. The
    conversion of the explicit \<open>alphas\<close> to the dtype of \<open>X\<close> is a collaborator.
  \<^item> A raised exception is a value of type \<open>error\<close>; the estimator object \<open>self\<close> is
    threaded as a record, and it is returned also when an exception leaves \<open>fit\<close>.
  \<^item> A fitted attribute \<open>name_\<close> of the source is the field \<open>name'\<close> (an identifier cannot end
    with an underscore); \<open>_fit_path\<close> is \<open>fit_path\<close>.
  \<^item> Everything imported from other modules (\<open>standardize\<close>, \<open>setup_p2\<close>, \<dots>) or inherited
    from the base class (\<open>_solve\<close>, \<open>_get_alpha_path\<close>, \<dots>) is a field of the record
    \<open>collab\<close>: an arbitrary function of the arguments the source passes to it.
  \<^item> \<open>joblib.Parallel\<close> is run with its default \<open>n_jobs=None\<close>: the jobs are executed in
    the calling process, one after the other, in the order of the generator.
\<close>

subsection \<open>Data\<close>

type_synonym vec = "real list"
type_synonym mat = "real list list"

datatype error =
    ValueError string
  | IndexError
  | AssertionError
  | OtherError string

text \<open>A numpy floating-point number, with the non-finite cases kept.\<close>

datatype npfloat = Fin real | PosInf | NegInf | NaN

text \<open>The constructor argument \<open>l1_ratio\<close>: a number, an array of numbers, or anything else.\<close>

datatype l1_arg = L1Scalar real | L1Array "real list" | L1NonNumeric

text \<open>The constructor arguments \<open>P1\<close>/\<open>P2\<close>: a string such as \<open>'identity'\<close>, or an array.\<close>

datatype penalty_arg = PenStr string | PenVec vec | PenMat mat

text \<open>The L2 penalty as the helpers pass it around: one- or two-dimensional.\<close>

datatype p2 = P2Vec vec | P2Mat mat

text \<open>\<open>alphas_\<close> is a vector for one \<open>l1_ratio\<close> and a matrix otherwise.\<close>

datatype alphas_arr = A1 vec | A2 mat

text \<open>Calls that the trace of a run records, in the order in which they happen.\<close>

datatype event =
    EvSetUpArgs
  | EvAlphaPath real
  | EvFitPath "nat list" "nat list" real
  | EvSolvePath
  | EvSolve

record config =
  l1_ratio :: l1_arg
  alphas :: "vec option"
  P2 :: penalty_arg
  check_input :: bool
  fit_intercept :: bool
  scale_predictors :: bool
  lower_bounds :: "vec option"
  upper_bounds :: "vec option"
  A_ineq :: "mat option"
  b_ineq :: "vec option"

text \<open>The attributes that \<open>fit\<close> assigns (\<open>None\<close>: not set), and the trace of the run.\<close>

record estimator =
  alphas' :: "alphas_arr option"
  intercept_path' :: "real list list list list option"
  coef_path' :: "real list list list list option"
  deviance_path' :: "npfloat list list list option"
  train_indices' :: "nat list list option"
  l1_ratio' :: "real option"
  alpha' :: "real option"
  col_means' :: "vec option"
  col_stds' :: "vec option"
  intercept' :: "real option"
  coef' :: "vec option"
  covariance_matrix' :: "mat option"
  trace :: "event list"

type_synonym prepared = "mat \<times> vec \<times> vec \<times> vec option \<times> real \<times> vec \<times> p2"

type_synonym standardized =
  "mat \<times> vec \<times> vec \<times> vec option \<times> vec option \<times> mat option \<times> vec \<times> p2"

text \<open>
  The collaborators. \<open>family_power\<close> is \<open>self._family_instance._power\<close> when the family has
  that attribute; \<open>link_is_log\<close> is \<open>isinstance(self._link_instance, LogLink)\<close>;
  \<open>solver_name\<close> is \<open>self._solver\<close>; \<open>cv_split\<close> and \<open>cv_get_n_splits\<close> are the methods of
  \<open>check_cv(self.cv)\<close>; \<open>_set_up_for_fit\<close> only resolves the family, the link and the solver and is
  no step of its own. The methods of \<open>self\<close> are taken as bound to the estimator on which
  \<open>fit\<close> is called. \<open>to_dtype X\<close> is the conversion of a number to \<open>X.dtype\<close> (the identity for
  a \<open>float64\<close> \<open>X\<close>, a rounding for a \<open>float32\<close> one); the other \<open>dtype\<close> arguments of the
  source are dropped. The collaborators return (an exception of theirs, other than those of
  the two validating ones, is not modelled).
\<close>

record collab =
  validate_super :: "config \<Rightarrow> error option"
  set_up_and_check_fit_args ::
    "config \<Rightarrow> mat \<Rightarrow> vec option \<Rightarrow> vec option \<Rightarrow> vec option \<Rightarrow> error + prepared"
  family_power :: "real option"
  link_is_log :: bool
  solver_name :: string
  center_predictors :: bool
  to_dtype :: "mat \<Rightarrow> real \<Rightarrow> real"
  get_alpha_path :: "real \<Rightarrow> mat \<Rightarrow> vec \<Rightarrow> vec \<Rightarrow> vec"
  check_bounds :: "vec option \<Rightarrow> nat \<Rightarrow> error + vec option"
  cv_split :: "mat \<Rightarrow> vec \<Rightarrow> (nat list \<times> nat list) list"
  cv_get_n_splits :: nat
  setup_p1 :: "vec \<Rightarrow> mat \<Rightarrow> real \<Rightarrow> real \<Rightarrow> vec"
  setup_p2 :: "p2 \<Rightarrow> mat \<Rightarrow> string list \<Rightarrow> real \<Rightarrow> real \<Rightarrow> p2"
  is_pos_semidef :: "p2 \<Rightarrow> bool"
  standardize ::
    "mat \<Rightarrow> npfloat list \<Rightarrow> bool \<Rightarrow> bool \<Rightarrow> vec option \<Rightarrow> vec option \<Rightarrow> mat option
      \<Rightarrow> vec \<Rightarrow> p2 \<Rightarrow> standardized"
  get_start_coef :: "mat \<Rightarrow> vec \<Rightarrow> npfloat list \<Rightarrow> vec option \<Rightarrow> vec \<Rightarrow> vec \<Rightarrow> vec"
  solve_regularization_path ::
    "mat \<Rightarrow> vec \<Rightarrow> npfloat list \<Rightarrow> vec \<Rightarrow> p2 \<Rightarrow> vec \<Rightarrow> vec \<Rightarrow> vec option
      \<Rightarrow> vec option \<Rightarrow> vec option \<Rightarrow> mat option \<Rightarrow> vec option \<Rightarrow> mat"
  solve ::
    "mat \<Rightarrow> vec \<Rightarrow> npfloat list \<Rightarrow> p2 \<Rightarrow> vec \<Rightarrow> vec \<Rightarrow> vec option
      \<Rightarrow> vec option \<Rightarrow> vec option \<Rightarrow> mat option \<Rightarrow> vec option \<Rightarrow> vec"
  unstandardize_path :: "vec \<Rightarrow> vec \<Rightarrow> vec \<Rightarrow> mat \<Rightarrow> vec \<times> mat"
  unstandardize :: "vec \<Rightarrow> vec \<Rightarrow> real \<Rightarrow> vec \<Rightarrow> real \<times> vec"
  safe_lin_pred :: "mat \<Rightarrow> vec \<Rightarrow> vec option \<Rightarrow> vec"
  link_inverse :: "vec \<Rightarrow> vec"
  family_deviance :: "vec \<Rightarrow> vec \<Rightarrow> npfloat list \<Rightarrow> npfloat"
  covariance_matrix :: "mat \<Rightarrow> vec \<Rightarrow> vec option \<Rightarrow> vec \<Rightarrow> mat"

subsection \<open>numpy operations\<close>

text \<open>
  \<open>xs[idx]\<close> with an index array: a copy of the selected entries, so that the division in place
  that follows does not reach \<open>xs\<close>; IndexError out of range. The indices are those that a
  splitter yields, which are not negative.
\<close>

definition take_idx :: "'a list \<Rightarrow> nat list \<Rightarrow> error + 'a list" where
  "take_idx xs idx =
     (if list_all (\<lambda>i. i < length xs) idx then Inr (map (\<lambda>i. xs ! i) idx) else Inl IndexError)"

definition np_div :: "real \<Rightarrow> real \<Rightarrow> npfloat" where
  "np_div x s =
     (if s \<noteq> 0 then Fin (x / s)
      else if 0 < x then PosInf else if x < 0 then NegInf else NaN)"

text \<open>\<open>w /= w.sum()\<close>: no exception when the sum is zero.\<close>

definition normalize_weights :: "vec \<Rightarrow> npfloat list" where
  "normalize_weights w = map (\<lambda>x. np_div x (sum_list w)) w"

text \<open>\<open>X.shape[1]\<close>.\<close>

definition n_features :: "mat \<Rightarrow> nat" where
  "n_features X = (case X of [] \<Rightarrow> 0 | r # _ \<Rightarrow> length r)"

text \<open>A list of arrays becomes one array only when all its members have the same length.\<close>

definition rect :: "'a list list \<Rightarrow> bool" where
  "rect xss = list_all (\<lambda>xs. length xs = length (hd xss)) xss"

text \<open>
  \<open>np.reshape(data, (n, k, a, -1))\<close> and \<open>np.reshape(data, (n, k, a))\<close> on the flattened data,
  in row-major order.
\<close>

definition reshape4 :: "'a list \<Rightarrow> nat \<Rightarrow> nat \<Rightarrow> nat \<Rightarrow> error + 'a list list list list" where
  "reshape4 flat n k a =
     (if n * k * a = 0 \<or> length flat mod (n * k * a) \<noteq> 0
      then Inl (ValueError ''cannot reshape array'')
      else let d = length flat div (n * k * a) in
        Inr (map (\<lambda>f. map (\<lambda>l. map (\<lambda>j. map (\<lambda>m. flat ! (((f * k + l) * a + j) * d + m))
               [0..<d]) [0..<a]) [0..<k]) [0..<n]))"

definition reshape3 :: "'a list \<Rightarrow> nat \<Rightarrow> nat \<Rightarrow> nat \<Rightarrow> error + 'a list list list" where
  "reshape3 flat n k a =
     (if length flat \<noteq> n * k * a
      then Inl (ValueError ''cannot reshape array'')
      else Inr (map (\<lambda>f. map (\<lambda>l. map (\<lambda>j. flat ! ((f * k + l) * a + j))
               [0..<a]) [0..<k]) [0..<n]))"

text \<open>
  Floating-point addition, the comparison \<open>\<le>\<close> (false as soon as one side is \<open>nan\<close>), and the
  division of a sum by a count.
\<close>

fun np_isnan :: "npfloat \<Rightarrow> bool" where
  "np_isnan NaN = True"
| "np_isnan (Fin x) = False"
| "np_isnan PosInf = False"
| "np_isnan NegInf = False"

fun np_add :: "npfloat \<Rightarrow> npfloat \<Rightarrow> npfloat" where
  "np_add (Fin x) (Fin y) = Fin (x + y)"
| "np_add NaN b = NaN"
| "np_add (Fin x) NaN = NaN"
| "np_add PosInf NaN = NaN"
| "np_add NegInf NaN = NaN"
| "np_add PosInf NegInf = NaN"
| "np_add NegInf PosInf = NaN"
| "np_add PosInf (Fin y) = PosInf"
| "np_add PosInf PosInf = PosInf"
| "np_add (Fin x) PosInf = PosInf"
| "np_add NegInf (Fin y) = NegInf"
| "np_add NegInf NegInf = NegInf"
| "np_add (Fin x) NegInf = NegInf"

fun np_le :: "npfloat \<Rightarrow> npfloat \<Rightarrow> bool" where
  "np_le (Fin x) (Fin y) = (x \<le> y)"
| "np_le NaN b = False"
| "np_le (Fin x) NaN = False"
| "np_le PosInf NaN = False"
| "np_le NegInf NaN = False"
| "np_le NegInf (Fin y) = True"
| "np_le NegInf PosInf = True"
| "np_le NegInf NegInf = True"
| "np_le (Fin x) PosInf = True"
| "np_le PosInf PosInf = True"
| "np_le (Fin x) NegInf = False"
| "np_le PosInf (Fin y) = False"
| "np_le PosInf NegInf = False"

fun np_div_count :: "npfloat \<Rightarrow> nat \<Rightarrow> npfloat" where
  "np_div_count (Fin x) n = np_div x (real n)"
| "np_div_count PosInf n = PosInf"
| "np_div_count NegInf n = NegInf"
| "np_div_count NaN n = NaN"

text \<open>\<open>v.sum()\<close> and \<open>v.mean()\<close> of a vector of floating-point numbers.\<close>

definition np_sum :: "npfloat list \<Rightarrow> npfloat" where
  "np_sum xs = foldr np_add xs (Fin 0)"

definition np_mean :: "npfloat list \<Rightarrow> npfloat" where
  "np_mean xs = np_div_count (np_sum xs) (length xs)"

text \<open>\<open>d.mean(axis=0)\<close> for \<open>d\<close> of shape \<open>(n, k, a)\<close>.\<close>

definition mean_axis0 :: "npfloat list list list \<Rightarrow> nat \<Rightarrow> nat \<Rightarrow> npfloat list list" where
  "mean_axis0 d k a =
     map (\<lambda>l. map (\<lambda>j. np_mean (map (\<lambda>f. f ! l ! j) d)) [0..<a]) [0..<k]"

text \<open>
  \<open>np.argmin\<close> of the flattened array: the position of the first \<open>nan\<close> when there is one, and
  otherwise the first position of the minimum.
\<close>

definition argmin :: "npfloat list \<Rightarrow> nat" where
  "argmin xs =
     (if list_ex np_isnan xs then length (takeWhile (\<lambda>x. \<not> np_isnan x) xs)
      else length (takeWhile (\<lambda>x. \<not> list_all (np_le x) xs) xs))"

definition unravel_index :: "nat \<Rightarrow> nat \<times> nat \<Rightarrow> nat \<times> nat" where
  "unravel_index i shape = (i div snd shape, i mod snd shape)"

text \<open>Checked reads: \<open>xs[i]\<close>, \<open>alphas_[i]\<close> and \<open>alphas_[i, j]\<close>.\<close>

definition get :: "'a list \<Rightarrow> nat \<Rightarrow> error + 'a" where
  "get xs i = (if i < length xs then Inr (xs ! i) else Inl IndexError)"

fun alphas_at1 :: "alphas_arr \<Rightarrow> nat \<Rightarrow> error + real" where
  "alphas_at1 (A1 v) j = get v j"
| "alphas_at1 (A2 m) j = Inl (OtherError ''alpha_ would be a row of alphas_'')"

fun alphas_at2 :: "alphas_arr \<Rightarrow> nat \<Rightarrow> nat \<Rightarrow> error + real" where
  "alphas_at2 (A2 m) i j = (case get m i of Inl e \<Rightarrow> Inl e | Inr r \<Rightarrow> get r j)"
| "alphas_at2 (A1 v) i j = Inl IndexError"

definition emit :: "event \<Rightarrow> estimator \<Rightarrow> estimator" where
  "emit e self = self\<lparr>trace := trace self @ [e]\<rparr>"

subsection \<open>Validation of the hyperparameters\<close>

definition validate_hyperparameters :: "collab \<Rightarrow> config \<Rightarrow> error option" where
  "validate_hyperparameters C cfg =
     (if (case alphas cfg of None \<Rightarrow> False | Some as \<Rightarrow> list_ex (\<lambda>a. a < 0) as)
      then Some (ValueError [])
      else if (case l1_ratio cfg of
                 L1NonNumeric \<Rightarrow> True
               | L1Scalar r \<Rightarrow> r < 0 \<or> 1 < r
               | L1Array rs \<Rightarrow> list_ex (\<lambda>r. r < 0) rs \<or> list_ex (\<lambda>r. 1 < r) rs)
      then Some (ValueError ''l1_ratio must be a number in interval [0, 1]'')
      else validate_super C cfg)"

text \<open>\<open>np.atleast_1d(self.l1_ratio)\<close>; a non-numeric value does not pass the validation.\<close>

fun atleast_1d :: "l1_arg \<Rightarrow> vec" where
  "atleast_1d (L1Scalar r) = [r]"
| "atleast_1d (L1Array rs) = rs"
| "atleast_1d L1NonNumeric = []"

subsection \<open>The grid of alphas\<close>

text \<open>
  One alpha path per \<open>l1_ratio\<close> when \<open>alphas\<close> is \<open>None\<close>; otherwise
  \<open>np.tile(np.sort(np.asarray(self.alphas, dtype=X.dtype))[::-1], (len(l1_ratio), 1))\<close>.
\<close>

definition alpha_grid ::
  "collab \<Rightarrow> config \<Rightarrow> vec \<Rightarrow> mat \<Rightarrow> vec \<Rightarrow> vec \<Rightarrow> estimator \<Rightarrow> estimator \<times> mat" where
  "alpha_grid C cfg l1s X y sample_weight self =
     (case alphas cfg of
        None \<Rightarrow>
          (self\<lparr>trace := trace self @ map EvAlphaPath l1s\<rparr>,
           map (\<lambda>l1. get_alpha_path C l1 X y sample_weight) l1s)
      | Some as \<Rightarrow> (self, replicate (length l1s) (rev (sort (map (to_dtype C X) as)))))"

text \<open>
  \<open>alphas[0]\<close> for one \<open>l1_ratio\<close> and \<open>np.asarray(alphas)\<close> otherwise. Without any \<open>l1_ratio\<close> the
  empty list of paths (\<open>alphas\<close> is \<open>None\<close>) becomes an empty vector, and the tiled array
  stays a matrix without rows.
\<close>

definition stored_alphas :: "vec option \<Rightarrow> vec \<Rightarrow> mat \<Rightarrow> error + alphas_arr" where
  "stored_alphas given l1s grid =
     (if length l1s = 1
      then (case get grid 0 of Inl e \<Rightarrow> Inl e | Inr r \<Rightarrow> Inr (A1 r))
      else if grid = [] \<and> given = None then Inr (A1 [])
      else if rect grid then Inr (A2 grid)
      else Inl (ValueError ''inhomogeneous shape''))"

subsection \<open>One job: the path of one fold and one \<open>l1_ratio\<close>\<close>

type_synonym path_result = "vec \<times> mat \<times> npfloat list \<times> nat list"

definition take_offset :: "vec option \<Rightarrow> nat list \<Rightarrow> error + vec option" where
  "take_offset offset idx =
     (case offset of
        None \<Rightarrow> Inr None
      | Some off \<Rightarrow> (case take_idx off idx of Inl e \<Rightarrow> Inl e | Inr v \<Rightarrow> Inr (Some v)))"

definition get_deviance ::
  "collab \<Rightarrow> mat \<Rightarrow> vec \<Rightarrow> npfloat list \<Rightarrow> vec option \<Rightarrow> vec \<Rightarrow> npfloat" where
  "get_deviance C x_test y_test w_test offset_test coef =
     family_deviance C y_test (link_inverse C (safe_lin_pred C x_test coef offset_test)) w_test"

text \<open>\<open>P2_no_alpha.ndim == 1 or P2_no_alpha.shape[0] == 1\<close>.\<close>

fun p2_is_1d :: "p2 \<Rightarrow> bool" where
  "p2_is_1d (P2Vec v) = True"
| "p2_is_1d (P2Mat m) = (length m = 1)"

fun is_str :: "penalty_arg \<Rightarrow> bool" where
  "is_str (PenStr s) = True"
| "is_str (PenVec v) = False"
| "is_str (PenMat m) = False"

text \<open>\<open>X[idx, :], y[idx], sample_weight[idx]\<close>, and then \<open>w /= w.sum()\<close>.\<close>

definition fold_data ::
  "mat \<Rightarrow> vec \<Rightarrow> vec \<Rightarrow> nat list \<Rightarrow> error + (mat \<times> vec \<times> npfloat list)" where
  "fold_data X y sample_weight idx =
     (case take_idx X idx of Inl e \<Rightarrow> Inl e | Inr x \<Rightarrow>
       (case take_idx y idx of Inl e \<Rightarrow> Inl e | Inr y1 \<Rightarrow>
         (case take_idx sample_weight idx of Inl e \<Rightarrow> Inl e | Inr w \<Rightarrow>
            Inr (x, y1, normalize_weights w))))"

text \<open>The first lines of \<open>_fit_path\<close>: the data of the fold.\<close>

definition fit_path_data ::
  "mat \<Rightarrow> vec \<Rightarrow> vec \<Rightarrow> vec option \<Rightarrow> nat list \<Rightarrow> nat list
    \<Rightarrow> error + ((mat \<times> vec \<times> npfloat list) \<times> (mat \<times> vec \<times> npfloat list)
                 \<times> vec option \<times> vec option)" where
  "fit_path_data X y sample_weight offset train_idx test_idx =
     (case fold_data X y sample_weight train_idx of Inl e \<Rightarrow> Inl e | Inr train \<Rightarrow>
       (case fold_data X y sample_weight test_idx of Inl e \<Rightarrow> Inl e | Inr test \<Rightarrow>
         (case take_offset offset train_idx of Inl e \<Rightarrow> Inl e | Inr offset_train \<Rightarrow>
           (case take_offset offset test_idx of Inl e \<Rightarrow> Inl e | Inr offset_test \<Rightarrow>
              Inr (train, test, offset_train, offset_test)))))"

text \<open>The last lines of \<open>_fit_path\<close>: unstandardising the path and its held-out deviances.\<close>

definition path_outputs ::
  "collab \<Rightarrow> config \<Rightarrow> vec \<Rightarrow> vec \<Rightarrow> mat \<Rightarrow> (mat \<times> vec \<times> npfloat list) \<Rightarrow> vec option
    \<Rightarrow> nat list \<Rightarrow> error + path_result" where
  "path_outputs C cfg means stds coef test offset_test train_idx =
     (case test of (x_test, y_test, w_test) \<Rightarrow>
       (if fit_intercept cfg then
          (if list_ex (\<lambda>r. r = []) coef then Inl IndexError
           else
             (case unstandardize_path C means stds (map hd coef) (map tl coef) of
               (intercept_path, coef_path) \<Rightarrow>
                 (if length intercept_path \<noteq> length coef_path
                  then Inl (ValueError ''all the input array dimensions must match'')
                  else Inr (intercept_path, coef_path,
                         map (get_deviance C x_test y_test w_test offset_test)
                           (map2 (#) intercept_path coef_path),
                         train_idx))))
        else
          (case unstandardize_path C means stds (replicate (length coef) 0) coef of
            (intercept_path, coef_path) \<Rightarrow>
              Inr (intercept_path, coef_path,
                map (get_deviance C x_test y_test w_test offset_test) coef_path,
                train_idx))))"

text \<open>
  \<open>_fit_path\<close>. The variables \<open>P1\<close>, \<open>P2\<close> and \<open>_stype\<close> of the enclosing \<open>fit\<close> come first. The
  diagnostic \<open>print\<close> calls have no effect on the result and are left out.
\<close>

definition fit_path ::
  "collab \<Rightarrow> config \<Rightarrow> vec \<Rightarrow> p2 \<Rightarrow> string list \<Rightarrow> estimator \<Rightarrow> nat list \<Rightarrow> nat list
    \<Rightarrow> mat \<Rightarrow> vec \<Rightarrow> real \<Rightarrow> vec \<Rightarrow> vec \<Rightarrow> vec option
    \<Rightarrow> vec option \<Rightarrow> vec option \<Rightarrow> mat option \<Rightarrow> vec option
    \<Rightarrow> estimator \<times> (error + path_result)" where
  "fit_path C cfg P1 P2v stype self0 train_idx test_idx X y l1 alphas_l1 sample_weight offset
      lower_bounds0 upper_bounds0 A_ineq0 b_ineq0 =
     (let self = emit (EvFitPath train_idx test_idx l1) self0 in
      (case fit_path_data X y sample_weight offset train_idx test_idx of
         Inl e \<Rightarrow> (self, Inl e)
       | Inr ((x_train0, y_train, w_train), test, offset_train, offset_test) \<Rightarrow>
          (if family_power C = Some (3 / 2) \<and> \<not> link_is_log C then (self, Inl AssertionError)
           else
             (case standardize C x_train0 w_train (center_predictors C) (scale_predictors cfg)
                     lower_bounds0 upper_bounds0 A_ineq0
                     (setup_p1 C P1 X 1 l1) (setup_p2 C P2v X stype 1 l1) of
               (x_train, means, stds, lower_bounds1, upper_bounds1, A_ineq1,
                 P1_no_alpha, P2_no_alpha) \<Rightarrow>
                 (let self1 = self\<lparr>col_means' := Some means, col_stds' := Some stds\<rparr>;
                      coef0 = get_start_coef C x_train y_train w_train offset_train means stds
                  in
                  (if check_input cfg \<and> \<not> is_str (P2 cfg) \<and> \<not> is_pos_semidef C P2_no_alpha
                   then (self1, Inl (ValueError
                          (if p2_is_1d P2_no_alpha
                           then ''1d array P2 must not have negative values.''
                           else ''P2 must be positive semi-definite.'')))
                   else
                     (emit EvSolvePath self1,
                      path_outputs C cfg means stds
                        (solve_regularization_path C x_train y_train w_train alphas_l1
                           P2_no_alpha P1_no_alpha coef0 offset_train
                           lower_bounds1 upper_bounds1 A_ineq1 b_ineq0)
                        test offset_test train_idx)))))))"

subsection \<open>Running the jobs\<close>

text \<open>The generator of the jobs: the folds (outer loop) times \<open>zip(l1_ratio, alphas)\<close>.\<close>

definition jobs ::
  "(nat list \<times> nat list) list \<Rightarrow> vec \<Rightarrow> mat \<Rightarrow> (nat list \<times> nat list \<times> real \<times> vec) list" where
  "jobs folds l1s grid =
     concat (map (\<lambda>(train_idx, test_idx).
               map (\<lambda>(this_l1_ratio, this_alphas).
                      (train_idx, test_idx, this_l1_ratio, this_alphas)) (zip l1s grid))
             folds)"

text \<open>
  \<open>joblib.Parallel(...)(jobs)\<close>, sequentially: the results come in the order of the jobs,
  and the first exception ends the run.
\<close>

fun run_jobs :: "('s \<Rightarrow> 'j \<Rightarrow> 's \<times> (error + 'r)) \<Rightarrow> 's \<Rightarrow> 'j list \<Rightarrow> 's \<times> (error + 'r list)" where
  "run_jobs f s [] = (s, Inr [])"
| "run_jobs f s (j # js) =
     (case f s j of
        (s1, Inl e) \<Rightarrow> (s1, Inl e)
      | (s1, Inr r) \<Rightarrow>
          (case run_jobs f s1 js of
             (s2, Inl e) \<Rightarrow> (s2, Inl e)
           | (s2, Inr rs) \<Rightarrow> (s2, Inr (r # rs))))"

subsection \<open>Collecting the paths\<close>

text \<open>
  The three \<open>np.reshape\<close> calls and the assignments that follow them. The shape tuple reads
  \<open>alphas[0]\<close>; a list of arrays of different shapes is not an array.
\<close>

definition assemble_paths ::
  "collab \<Rightarrow> vec \<Rightarrow> mat \<Rightarrow> estimator \<Rightarrow> path_result list
    \<Rightarrow> estimator \<times> (error + npfloat list list list)" where
  "assemble_paths C l1s grid self paths_data =
     (if grid = [] then (self, Inl IndexError)
      else
        (let n = cv_get_n_splits C; k = length l1s; a = length (hd grid);
             ints = map (\<lambda>(i, c, d, t). i) paths_data;
             coefs = map (\<lambda>(i, c, d, t). c) paths_data;
             devs = map (\<lambda>(i, c, d, t). d) paths_data
         in
         (if \<not> rect ints then (self, Inl (ValueError ''inhomogeneous shape''))
          else
            (case reshape4 (concat ints) n k a of Inl e \<Rightarrow> (self, Inl e) | Inr ip \<Rightarrow>
              (let self1 = self\<lparr>intercept_path' := Some ip\<rparr> in
               (if \<not> rect coefs \<or> \<not> rect (concat coefs)
                then (self1, Inl (ValueError ''inhomogeneous shape''))
                else
                  (case reshape4 (concat (concat coefs)) n k a of
                     Inl e \<Rightarrow> (self1, Inl e)
                   | Inr cp \<Rightarrow>
                      (let self2 = self1\<lparr>coef_path' := Some cp\<rparr> in
                       (if \<not> rect devs then (self2, Inl (ValueError ''inhomogeneous shape''))
                        else
                          (case reshape3 (concat devs) n k a of
                             Inl e \<Rightarrow> (self2, Inl e)
                           | Inr dp \<Rightarrow>
                              (self2\<lparr>deviance_path' := Some dp,
                                     train_indices' := Some (map (\<lambda>(i, c, d, t). t) paths_data)\<rparr>,
                               Inr dp)))))))))))"

subsection \<open>Selecting the hyperparameters\<close>

text \<open>
  From \<open>avg_deviance = self.deviance_path_.mean(axis=0)\<close> to the assignment of \<open>l1_ratio_\<close> and
  \<open>alpha_\<close>; \<open>a\<close> is the last dimension of \<open>deviance_path_\<close>. The result is
  \<open>(l1_ratio_, alpha_)\<close>.
\<close>

definition best_index :: "npfloat list list list \<Rightarrow> nat \<Rightarrow> nat \<Rightarrow> error + (nat \<times> nat)" where
  "best_index deviance_path k a =
     (let avg_deviance = mean_axis0 deviance_path k a in
      (if concat avg_deviance = []
       then Inl (ValueError ''attempt to get argmin of an empty sequence'')
       else Inr (unravel_index (argmin (concat avg_deviance)) (k, a))))"

definition select_best ::
  "vec \<Rightarrow> alphas_arr \<Rightarrow> npfloat list list list \<Rightarrow> nat \<Rightarrow> error + (real \<times> real)" where
  "select_best l1s al deviance_path a =
     (case best_index deviance_path (length l1s) a of
        Inl e \<Rightarrow> Inl e
      | Inr (best_l1, best_alpha) \<Rightarrow>
         (case get l1s best_l1 of
            Inl e \<Rightarrow> Inl e
          | Inr l1 \<Rightarrow>
             (case (if 1 < length l1s then alphas_at2 al best_l1 best_alpha
                    else alphas_at1 al best_alpha) of
                Inl e \<Rightarrow> Inl e
              | Inr alpha \<Rightarrow> Inr (l1, alpha))))"

subsection \<open>The final fit on the full data\<close>

definition refit ::
  "collab \<Rightarrow> config \<Rightarrow> mat \<Rightarrow> vec \<Rightarrow> vec \<Rightarrow> vec option \<Rightarrow> real \<Rightarrow> vec \<Rightarrow> p2 \<Rightarrow> string list
    \<Rightarrow> vec option \<Rightarrow> vec option \<Rightarrow> bool \<Rightarrow> real \<Rightarrow> real \<Rightarrow> estimator
    \<Rightarrow> estimator \<times> error option" where
  "refit C cfg X y sample_weight offset weights_sum P1 P2v stype lower_bounds0 upper_bounds0
      store_covariance_matrix l1 alpha self =
     (let w = map Fin sample_weight in
      (case standardize C X w (center_predictors C) (scale_predictors cfg)
              lower_bounds0 upper_bounds0 (A_ineq cfg)
              (setup_p1 C P1 X alpha l1) (setup_p2 C P2v X stype alpha l1) of
        (Xs, means, stds, lower_bounds1, upper_bounds1, A_ineq1, P1s, P2s) \<Rightarrow>
          (let self1 = emit EvSolve (self\<lparr>col_means' := Some means, col_stds' := Some stds\<rparr>);
               coef = solve C Xs y w P2s P1s (get_start_coef C Xs y w offset means stds) offset
                        lower_bounds1 upper_bounds1 A_ineq1 (b_ineq cfg)
           in
           (if fit_intercept cfg \<and> coef = [] then (self1, Some IndexError)
            else
              (case (if fit_intercept cfg then unstandardize C means stds (hd coef) (tl coef)
                     else unstandardize C means stds 0 coef) of
                (i, c) \<Rightarrow>
                  (let self2 = self1\<lparr>intercept' := Some i, coef' := Some c,
                                     covariance_matrix' := None\<rparr>
                   in
                   ((if store_covariance_matrix
                     then self2\<lparr>covariance_matrix' :=
                            Some (covariance_matrix C Xs y offset
                                    (map (\<lambda>x. x * weights_sum) sample_weight))\<rparr>
                     else self2),
                    None)))))))"

subsection \<open>\<open>fit\<close>\<close>

definition stype_of :: "collab \<Rightarrow> string list" where
  "stype_of C = (if solver_name C = ''cd'' then [''csc''] else [''csc'', ''csr''])"

text \<open>From the dispatch of the jobs to the end of \<open>fit\<close>.\<close>

definition fit_cv ::
  "collab \<Rightarrow> config \<Rightarrow> prepared \<Rightarrow> vec \<Rightarrow> mat \<Rightarrow> vec option \<Rightarrow> vec option \<Rightarrow> bool \<Rightarrow> estimator
    \<Rightarrow> estimator \<times> error option" where
  "fit_cv C cfg prep l1s grid lower_bounds0 upper_bounds0 store_covariance_matrix self =
     (case prep of (X, y, sample_weight, offset, weights_sum, P1, P2v) \<Rightarrow>
       (case run_jobs
               (\<lambda>s (train_idx, test_idx, this_l1_ratio, this_alphas).
                  fit_path C cfg P1 P2v (stype_of C) s train_idx test_idx X y this_l1_ratio
                    this_alphas sample_weight offset lower_bounds0 upper_bounds0
                    (A_ineq cfg) (b_ineq cfg))
               self (jobs (cv_split C X y) l1s grid) of
          (self1, Inl e) \<Rightarrow> (self1, Some e)
        | (self1, Inr paths_data) \<Rightarrow>
           (case assemble_paths C l1s grid self1 paths_data of
              (self2, Inl e) \<Rightarrow> (self2, Some e)
            | (self2, Inr dp) \<Rightarrow>
               (case (case alphas' self2 of
                        None \<Rightarrow> Inl (OtherError ''alphas_ is not set'')
                      | Some al \<Rightarrow> select_best l1s al dp (length (hd grid))) of
                  Inl e \<Rightarrow> (self2, Some e)
                | Inr (l1, alpha) \<Rightarrow>
                   refit C cfg X y sample_weight offset weights_sum P1 P2v (stype_of C)
                     lower_bounds0 upper_bounds0 store_covariance_matrix l1 alpha
                     (self2\<lparr>l1_ratio' := Some l1, alpha' := Some alpha\<rparr>)))))"

definition fit ::
  "collab \<Rightarrow> config \<Rightarrow> mat \<Rightarrow> vec option \<Rightarrow> vec option \<Rightarrow> vec option \<Rightarrow> bool \<Rightarrow> estimator
    \<Rightarrow> estimator \<times> error option" where
  "fit C cfg X0 y0 sample_weight0 offset0 store_covariance_matrix self =
     (case validate_hyperparameters C cfg of
        Some e \<Rightarrow> (self, Some e)
      | None \<Rightarrow>
         (let self1 = emit EvSetUpArgs self in
          (case set_up_and_check_fit_args C cfg X0 y0 sample_weight0 offset0 of
             Inl e \<Rightarrow> (self1, Some e)
           | Inr (X, y, sample_weight, offset, rest) \<Rightarrow>
              (if family_power C = Some (3 / 2) \<and> \<not> link_is_log C
               then (self1, Some AssertionError)
               else
                 (let l1s = atleast_1d (l1_ratio cfg) in
                  (case alpha_grid C cfg l1s X y sample_weight self1 of
                    (self2, grid) \<Rightarrow>
                      (case stored_alphas (alphas cfg) l1s grid of
                         Inl e \<Rightarrow> (self2, Some e)
                       | Inr al \<Rightarrow>
                          (let self3 = self2\<lparr>alphas' := Some al\<rparr> in
                           (case check_bounds C (lower_bounds cfg) (n_features X) of
                              Inl e \<Rightarrow> (self3, Some e)
                            | Inr lower_bounds0 \<Rightarrow>
                               (case check_bounds C (upper_bounds cfg) (n_features X) of
                                  Inl e \<Rightarrow> (self3, Some e)
                                | Inr upper_bounds0 \<Rightarrow>
                                   fit_cv C cfg (X, y, sample_weight, offset, rest) l1s grid
                                     lower_bounds0 upper_bounds0 store_covariance_matrix
                                     self3))))))))))"

subsection \<open>Scaling the weights of a partition\<close>

text \<open>The sample weights with those at the positions \<open>idx\<close> multiplied by \<open>c\<close>.\<close>

definition scale_weights :: "real \<Rightarrow> nat list \<Rightarrow> vec \<Rightarrow> vec" where
  "scale_weights c idx w = map (\<lambda>i. if i \<in> set idx then c * w ! i else w ! i) [0..<length w]"

subsection \<open>A small instance of the collaborators\<close>

text \<open>
  Two samples with one feature and two folds, each fold testing on one sample. The solver
  shrinks the sum of \<open>y\<close>; the deviance is the weighted squared error, summed in
  floating-point arithmetic; the L2 penalty is scaled by \<open>alpha * (1 - l1_ratio)\<close>; the column
  mean that \<open>standardize\<close> reports is the sum of the column; \<open>X\<close> is a \<open>float64\<close> array.
\<close>

text \<open>The product of a weight and a finite number.\<close>

fun np_times :: "npfloat \<Rightarrow> real \<Rightarrow> npfloat" where
  "np_times (Fin w) x = Fin (w * x)"
| "np_times PosInf x = (if 0 < x then PosInf else if x < 0 then NegInf else NaN)"
| "np_times NegInf x = (if 0 < x then NegInf else if x < 0 then PosInf else NaN)"
| "np_times NaN x = NaN"

fun toy_scale_p2 :: "real \<Rightarrow> p2 \<Rightarrow> p2" where
  "toy_scale_p2 c (P2Vec v) = P2Vec (map (\<lambda>x. c * x) v)"
| "toy_scale_p2 c (P2Mat m) = P2Mat (map (map (\<lambda>x. c * x)) m)"

fun toy_is_pos_semidef :: "p2 \<Rightarrow> bool" where
  "toy_is_pos_semidef (P2Vec v) = list_all (\<lambda>x. 0 \<le> x) v"
| "toy_is_pos_semidef (P2Mat m) = list_all (list_all (\<lambda>x. 0 \<le> x)) m"

fun toy_p2 :: "penalty_arg \<Rightarrow> p2" where
  "toy_p2 (PenStr s) = P2Vec [1]"
| "toy_p2 (PenVec v) = P2Vec v"
| "toy_p2 (PenMat m) = P2Mat m"

definition toy :: collab where
  "toy = \<lparr>
     validate_super = (\<lambda>cfg. None),
     set_up_and_check_fit_args = (\<lambda>cfg X y w off.
        Inr (X, (case y of None \<Rightarrow> [] | Some v \<Rightarrow> v),
             (case w of None \<Rightarrow> replicate (length X) 1 | Some v \<Rightarrow> v),
             off, 1, [1], toy_p2 (P2 cfg))),
     family_power = None,
     link_is_log = False,
     solver_name = ''irls-ls'',
     center_predictors = True,
     to_dtype = (\<lambda>X x. x),
     get_alpha_path = (\<lambda>l1 X y w. [1, 1 / 2]),
     check_bounds = (\<lambda>b n. Inr b),
     cv_split = (\<lambda>X y. [([1], [0]), ([0], [1])]),
     cv_get_n_splits = 2,
     setup_p1 = (\<lambda>P1 X alpha l1. map (\<lambda>x. alpha * l1 * x) P1),
     setup_p2 = (\<lambda>P X stype alpha l1. toy_scale_p2 (alpha * (1 - l1)) P),
     is_pos_semidef = toy_is_pos_semidef,
     standardize = (\<lambda>X w center scale lb ub A P1 P.
        (X, [sum_list (map hd X)], [1], lb, ub, A, P1, P)),
     get_start_coef = (\<lambda>X y w off means stds. [0, 0]),
     solve_regularization_path = (\<lambda>X y w as P P1 coef off lb ub A b.
        map (\<lambda>a. [sum_list y / (1 + a + sum_list P1), 0]) as),
     solve = (\<lambda>X y w P P1 coef off lb ub A b. [sum_list y, 0]),
     unstandardize_path = (\<lambda>means stds ints coefs. (ints, coefs)),
     unstandardize = (\<lambda>means stds i c. (i, c)),
     safe_lin_pred = (\<lambda>X coef off. map (\<lambda>r. hd coef) X),
     link_inverse = (\<lambda>eta. eta),
     family_deviance = (\<lambda>y mu w.
        np_sum (map (\<lambda>(wi, yi, mi). np_times wi ((yi - mi) * (yi - mi)))
                  (zip w (zip y mu)))),
     covariance_matrix = (\<lambda>X y off w. [])
   \<rparr>"

definition toy_config :: config where
  "toy_config = \<lparr> l1_ratio = L1Scalar 0, alphas = None, P2 = PenStr ''identity'',
     check_input = True, fit_intercept = True, scale_predictors = False,
     lower_bounds = None, upper_bounds = None, A_ineq = None, b_ineq = None \<rparr>"

definition toy_X :: mat where
  "toy_X = [[1], [3]]"

definition toy_y :: vec where
  "toy_y = [1, 2]"

text \<open>An estimator on which \<open>fit\<close> has not run.\<close>

definition unfitted :: estimator where
  "unfitted = \<lparr> alphas' = None, intercept_path' = None, coef_path' = None,
     deviance_path' = None, train_indices' = None, l1_ratio' = None, alpha' = None,
     col_means' = None, col_stds' = None, intercept' = None, coef' = None,
     covariance_matrix' = None, trace = [] \<rparr>"

text \<open>The three runs of \<open>fit\<close> on this instance that the examples below use, and their results.\<close>

definition toy_fitted :: estimator where
  "toy_fitted = \<lparr> alphas' = Some (A1 [1, 1 / 2]),
     intercept_path' = Some [[[[1], [4 / 3]]], [[[1 / 2], [2 / 3]]]],
     coef_path' = Some [[[[0], [0]]], [[[0], [0]]]],
     deviance_path' = Some [[[Fin 0, Fin (1 / 9)]], [[Fin (9 / 4), Fin (16 / 9)]]],
     train_indices' = Some [[1], [0]], l1_ratio' = Some 0, alpha' = Some (1 / 2),
     col_means' = Some [4], col_stds' = Some [1], intercept' = Some 3, coef' = Some [0],
     covariance_matrix' = None,
     trace = [EvSetUpArgs, EvAlphaPath 0, EvFitPath [1] [0] 0, EvSolvePath,
              EvFitPath [0] [1] 0, EvSolvePath, EvSolve] \<rparr>"

definition toy_fitted_two :: estimator where
  "toy_fitted_two = \<lparr> alphas' = Some (A2 [[1, 1 / 2], [1, 1 / 2]]),
     intercept_path' =
       Some [[[[1], [4 / 3]], [[2 / 3], [4 / 5]]], [[[1 / 2], [2 / 3]], [[1 / 3], [2 / 5]]]],
     coef_path' = Some [[[[0], [0]], [[0], [0]]], [[[0], [0]], [[0], [0]]]],
     deviance_path' =
       Some [[[Fin 0, Fin (1 / 9)], [Fin (1 / 9), Fin (1 / 25)]],
             [[Fin (9 / 4), Fin (16 / 9)], [Fin (25 / 9), Fin (64 / 25)]]],
     train_indices' = Some [[1], [1], [0], [0]], l1_ratio' = Some 0, alpha' = Some (1 / 2),
     col_means' = Some [4], col_stds' = Some [1], intercept' = Some 3, coef' = Some [0],
     covariance_matrix' = None,
     trace = [EvSetUpArgs, EvAlphaPath 0, EvAlphaPath 1, EvFitPath [1] [0] 0, EvSolvePath,
              EvFitPath [1] [0] 1, EvSolvePath, EvFitPath [0] [1] 0, EvSolvePath,
              EvFitPath [0] [1] 1, EvSolvePath, EvSolve] \<rparr>"

definition toy_fitted_explicit :: estimator where
  "toy_fitted_explicit = \<lparr> alphas' = Some (A1 [1, 1 / 10, 1 / 100]),
     intercept_path' =
       Some [[[[20 / 23], [10 / 7], [200 / 131]]], [[[10 / 23], [5 / 7], [100 / 131]]]],
     coef_path' = Some [[[[0], [0], [0]]], [[[0], [0], [0]]]],
     deviance_path' =
       Some [[[Fin (9 / 529), Fin (9 / 49), Fin (4761 / 17161)]],
             [[Fin (1296 / 529), Fin (81 / 49), Fin (26244 / 17161)]]],
     train_indices' = Some [[1], [0]], l1_ratio' = Some (3 / 10), alpha' = Some (1 / 100),
     col_means' = Some [4], col_stds' = Some [1], intercept' = Some 3, coef' = Some [0],
     covariance_matrix' = None,
     trace = [EvSetUpArgs, EvFitPath [1] [0] (3 / 10), EvSolvePath,
              EvFitPath [0] [1] (3 / 10), EvSolvePath, EvSolve] \<rparr>"

subsection \<open>Jobs that complete in another order\<close>

text \<open>
  \<open>joblib.Parallel\<close> with several workers: the jobs are carried out in some order, given as
  the list \<open>order\<close> of their positions (a list that is not a permutation of the positions is
  no such order, and the jobs are then run as they are listed), and the list of their
  results is handed back in the order of the generator.
\<close>

definition run_jobs_in_order ::
  "('s \<Rightarrow> 'j \<Rightarrow> 's \<times> (error + 'r)) \<Rightarrow> 's \<Rightarrow> 'j list \<Rightarrow> nat list \<Rightarrow> 's \<times> (error + 'r list)" where
  "run_jobs_in_order f s js order =
     (if sort order \<noteq> [0..<length js] then run_jobs f s js
      else
        (case run_jobs f s (map (\<lambda>i. js ! i) order) of
           (s1, Inl e) \<Rightarrow> (s1, Inl e)
         | (s1, Inr rs) \<Rightarrow>
            (s1, Inr (map (\<lambda>p. rs ! length (takeWhile (\<lambda>i. i \<noteq> p) order)) [0..<length js]))))"

text \<open>What \<open>fit\<close> does with the outcome of the jobs: the part of \<open>fit_cv\<close> after the dispatch.\<close>

definition after_jobs ::
  "collab \<Rightarrow> config \<Rightarrow> prepared \<Rightarrow> vec \<Rightarrow> mat \<Rightarrow> vec option \<Rightarrow> vec option \<Rightarrow> bool
    \<Rightarrow> estimator \<times> (error + path_result list) \<Rightarrow> estimator \<times> error option" where
  "after_jobs C cfg prep l1s grid lower_bounds0 upper_bounds0 store_covariance_matrix outcome =
     (case prep of (X, y, sample_weight, offset, weights_sum, P1, P2v) \<Rightarrow>
       (case outcome of
          (self1, Inl e) \<Rightarrow> (self1, Some e)
        | (self1, Inr paths_data) \<Rightarrow>
           (case assemble_paths C l1s grid self1 paths_data of
              (self2, Inl e) \<Rightarrow> (self2, Some e)
            | (self2, Inr dp) \<Rightarrow>
               (case (case alphas' self2 of
                        None \<Rightarrow> Inl (OtherError ''alphas_ is not set'')
                      | Some al \<Rightarrow> select_best l1s al dp (length (hd grid))) of
                  Inl e \<Rightarrow> (self2, Some e)
                | Inr (l1, alpha) \<Rightarrow>
                   refit C cfg X y sample_weight offset weights_sum P1 P2v (stype_of C)
                     lower_bounds0 upper_bounds0 store_covariance_matrix l1 alpha
                     (self2\<lparr>l1_ratio' := Some l1, alpha' := Some alpha\<rparr>)))))"

text \<open>\<open>fit\<close> from the dispatch of the jobs on, with the jobs carried out in the order \<open>order\<close>.\<close>

definition fit_cv_in_order ::
  "nat list \<Rightarrow> collab \<Rightarrow> config \<Rightarrow> prepared \<Rightarrow> vec \<Rightarrow> mat \<Rightarrow> vec option \<Rightarrow> vec option \<Rightarrow> bool
    \<Rightarrow> estimator \<Rightarrow> estimator \<times> error option" where
  "fit_cv_in_order order C cfg prep l1s grid lower_bounds0 upper_bounds0 store_covariance_matrix
      self =
     (case prep of (X, y, sample_weight, offset, weights_sum, P1, P2v) \<Rightarrow>
        after_jobs C cfg prep l1s grid lower_bounds0 upper_bounds0 store_covariance_matrix
          (run_jobs_in_order
             (\<lambda>s (train_idx, test_idx, this_l1_ratio, this_alphas).
                fit_path C cfg P1 P2v (stype_of C) s train_idx test_idx X y this_l1_ratio
                  this_alphas sample_weight offset lower_bounds0 upper_bounds0
                  (A_ineq cfg) (b_ineq cfg))
             self (jobs (cv_split C X y) l1s grid) order))"

subsection \<open>Further instances\<close>

text \<open>Three samples and three folds, each fold testing on one sample.\<close>

definition toy3 :: collab where
  "toy3 = toy\<lparr>cv_split := (\<lambda>X y. [([1, 2], [0]), ([0, 2], [1]), ([0, 1], [2])]),
              cv_get_n_splits := 3\<rparr>"

definition toy3_X :: mat where
  "toy3_X = [[1], [3], [5]]"

definition toy3_y :: vec where
  "toy3_y = [1, 2, 3]"

text \<open>
  \<open>X\<close> is a \<open>float32\<close> array: the conversion to its dtype rounds to single precision (given
  here on the numbers that the example uses; 1 is representable).
\<close>

definition toy32 :: collab where
  "toy32 = toy\<lparr>to_dtype := (\<lambda>X x. if x = 1 / 10 then 13421773 / 134217728
                                  else if x = 1 / 100 then 5368709 / 536870912 else x)\<rparr>"

text \<open>The alpha path starts at the weighted mean of \<open>y\<close>.\<close>

definition toy_wpath :: collab where
  "toy_wpath = toy\<lparr>get_alpha_path := (\<lambda>l1 X y w.
      [sum_list (map2 (*) w y) / sum_list w, sum_list (map2 (*) w y) / sum_list w / 2])\<rparr>"

text \<open>The runs of \<open>fit\<close> on these instances that the examples below use, and their results.\<close>

definition toy3_fitted :: estimator where
  "toy3_fitted = \<lparr> alphas' = Some (A1 [1, 1 / 2]),
     intercept_path' = Some [[[[5 / 2], [10 / 3]]], [[[2], [8 / 3]]], [[[3 / 2], [2]]]],
     coef_path' = Some [[[[0], [0]]], [[[0], [0]]], [[[0], [0]]]],
     deviance_path' = Some [[[NaN, NaN]], [[Fin 0, Fin (4 / 9)]], [[Fin (9 / 4), Fin 1]]],
     train_indices' = Some [[1, 2], [0, 2], [0, 1]], l1_ratio' = Some 0, alpha' = Some 1,
     col_means' = Some [9], col_stds' = Some [1], intercept' = Some 6, coef' = Some [0],
     covariance_matrix' = None,
     trace = [EvSetUpArgs, EvAlphaPath 0, EvFitPath [1, 2] [0] 0, EvSolvePath,
              EvFitPath [0, 2] [1] 0, EvSolvePath, EvFitPath [0, 1] [2] 0, EvSolvePath,
              EvSolve] \<rparr>"

definition toy_fitted_tie :: estimator where
  "toy_fitted_tie = \<lparr> alphas' = Some (A2 [[1 / 4, 0], [1 / 4, 0]]),
     intercept_path' =
       Some [[[[8 / 5], [2]], [[4 / 3], [8 / 5]]], [[[4 / 5], [1]], [[2 / 3], [4 / 5]]]],
     coef_path' = Some [[[[0], [0]], [[0], [0]]], [[[0], [0]], [[0], [0]]]],
     deviance_path' =
       Some [[[Fin (9 / 25), Fin 1], [Fin (1 / 9), Fin (9 / 25)]],
             [[Fin (36 / 25), Fin 1], [Fin (16 / 9), Fin (36 / 25)]]],
     train_indices' = Some [[1], [1], [0], [0]], l1_ratio' = Some 0, alpha' = Some (1 / 4),
     col_means' = Some [4], col_stds' = Some [1], intercept' = Some 3, coef' = Some [0],
     covariance_matrix' = None,
     trace = [EvSetUpArgs, EvFitPath [1] [0] 0, EvSolvePath, EvFitPath [1] [0] (1 / 4),
              EvSolvePath, EvFitPath [0] [1] 0, EvSolvePath, EvFitPath [0] [1] (1 / 4),
              EvSolvePath, EvSolve] \<rparr>"

section \<open>Properties\<close>

lemmas fit_defs = fit_def fit_cv_def refit_def select_best_def best_index_def
  assemble_paths_def fit_path_def path_outputs_def fit_path_data_def fold_data_def
  take_offset_def take_idx_def get_deviance_def normalize_weights_def np_div_def
  validate_hyperparameters_def alpha_grid_def stored_alphas_def jobs_def stype_of_def
  emit_def rect_def reshape3_def reshape4_def mean_axis0_def np_mean_def np_sum_def argmin_def
  unravel_index_def get_def n_features_def

lemmas toy_defs = toy_def toy_config_def toy_X_def toy_y_def unfitted_def

subsection \<open>Validation comes first\<close>

lemma validate_hyperparameters_invalid:
  assumes "l1_ratio cfg = L1NonNumeric
     \<or> (\<exists>r\<in>set (atleast_1d (l1_ratio cfg)). r < 0 \<or> 1 < r)
     \<or> (\<exists>as. alphas cfg = Some as \<and> (\<exists>a\<in>set as. a < 0))"
  shows "\<exists>msg. validate_hyperparameters C cfg = Some (ValueError msg)"
  using assms
  by (cases "l1_ratio cfg")
     (auto simp: validate_hyperparameters_def list_ex_iff split: option.splits)

text \<open>
  Claim C6. When \<open>l1_ratio\<close> is not numeric or has an entry outside \<open>[0, 1]\<close>, or when the
  explicit list \<open>alphas\<close> has a negative entry, \<open>fit\<close> raises a ValueError and returns the
  estimator exactly as it received it: no attribute is assigned and the trace has no new
  event, so no data preparation, alpha path, job or solve has happened. This holds whatever
  the collaborators and the data are.
\<close>

theorem invalid_hyperparameters_raise_first:
  assumes "l1_ratio cfg = L1NonNumeric
     \<or> (\<exists>r\<in>set (atleast_1d (l1_ratio cfg)). r < 0 \<or> 1 < r)
     \<or> (\<exists>as. alphas cfg = Some as \<and> (\<exists>a\<in>set as. a < 0))"
  shows "\<exists>msg. fit C cfg X0 y0 sample_weight0 offset0 store_covariance_matrix self
            = (self, Some (ValueError msg))"
proof -
  obtain msg where "validate_hyperparameters C cfg = Some (ValueError msg)"
    using validate_hyperparameters_invalid [OF assms] by blast
  then show ?thesis by (simp add: fit_def)
qed

theorem invalid_hyperparameters_raise_first_witness:
  "(\<exists>r\<in>set (atleast_1d (l1_ratio (toy_config\<lparr>l1_ratio := L1Scalar 2\<rparr>))). r < 0 \<or> 1 < r)
   \<and> (\<exists>msg. fit toy (toy_config\<lparr>l1_ratio := L1Scalar 2\<rparr>) toy_X (Some toy_y) None None False
              unfitted = (unfitted, Some (ValueError msg)))
   \<and> (\<exists>a\<in>set [1, - 1 :: real]. a < 0)
   \<and> (\<exists>msg. fit toy (toy_config\<lparr>alphas := Some [1, - 1]\<rparr>) toy_X (Some toy_y) None None False
              unfitted = (unfitted, Some (ValueError msg)))"
proof -
  have a: "\<exists>r\<in>set (atleast_1d (l1_ratio (toy_config\<lparr>l1_ratio := L1Scalar 2\<rparr>))). r < 0 \<or> 1 < r"
    by simp
  have b: "\<exists>as. alphas (toy_config\<lparr>alphas := Some [1, - 1]\<rparr>) = Some as \<and> (\<exists>a\<in>set as. a < 0)"
    by simp
  show ?thesis
    using a invalid_hyperparameters_raise_first
            [of "toy_config\<lparr>l1_ratio := L1Scalar 2\<rparr>" toy toy_X "Some toy_y" None None False unfitted]
          invalid_hyperparameters_raise_first
            [of "toy_config\<lparr>alphas := Some [1, - 1]\<rparr>" toy toy_X "Some toy_y" None None False unfitted]
          b
    by simp
qed

subsection \<open>The flattened argmin\<close>

lemma takeWhile_stops:
  assumes "\<exists>x\<in>set xs. \<not> P x"
  shows "length (takeWhile P xs) < length xs"
    and "\<not> P (xs ! length (takeWhile P xs))"
  using assms by (induction xs) auto

lemma takeWhile_before: "j < length (takeWhile P xs) \<Longrightarrow> P (xs ! j)"
proof -
  assume j: "j < length (takeWhile P xs)"
  then have "takeWhile P xs ! j \<in> set (takeWhile P xs)" by simp
  then have "P (takeWhile P xs ! j)" using set_takeWhileD by fastforce
  then show ?thesis using j by (simp add: takeWhile_nth)
qed

lemma np_le_refl: "\<not> np_isnan a \<Longrightarrow> np_le a a"
  by (cases a) auto

lemma np_le_total: "\<not> np_isnan a \<Longrightarrow> \<not> np_isnan b \<Longrightarrow> np_le a b \<or> np_le b a"
  by (cases a; cases b) auto

lemma np_le_trans: "np_le a b \<Longrightarrow> np_le b c \<Longrightarrow> np_le a c"
  by (cases a; cases b; cases c) auto

lemma np_least_exists:
  "xs \<noteq> [] \<Longrightarrow> \<forall>x\<in>set xs. \<not> np_isnan x \<Longrightarrow> \<exists>x\<in>set xs. \<forall>y\<in>set xs. np_le x y"
proof (induction xs)
  case Nil
  then show ?case by simp
next
  case (Cons a xs)
  show ?case
  proof (cases "xs = []")
    case True
    have "np_le a a" using Cons.prems by (intro np_le_refl) simp
    then show ?thesis using True by simp
  next
    case False
    have "\<forall>x\<in>set xs. \<not> np_isnan x" using Cons.prems by simp
    from Cons.IH [OF False this]
    obtain m where m: "m \<in> set xs" "\<forall>y\<in>set xs. np_le m y" by blast
    have nn: "\<not> np_isnan a" "\<not> np_isnan m" using Cons.prems m by auto
    show ?thesis
    proof (cases "np_le a m")
      case True
      have "np_le a y" if "y \<in> set xs" for y
        using np_le_trans [OF True] m(2) that by blast
      then have "\<forall>y\<in>set (a # xs). np_le a y"
        using np_le_refl [OF nn(1)] by simp
      then show ?thesis by (intro bexI [of _ a]) simp_all
    next
      case False
      then have "np_le m a" using np_le_total [OF nn] by simp
      then have "\<forall>y\<in>set (a # xs). np_le m y" using m(2) by simp
      then show ?thesis using m(1) by (intro bexI [of _ m]) simp_all
    qed
  qed
qed

text \<open>The flattened argmin is a position of the array, whatever the array holds.\<close>

lemma argmin_less:
  assumes "xs \<noteq> []"
  shows "argmin xs < length xs"
proof (cases "list_ex np_isnan xs")
  case True
  then have "\<exists>x\<in>set xs. \<not> \<not> np_isnan x" by (simp add: list_ex_iff)
  from takeWhile_stops(1) [OF this] show ?thesis using True by (simp add: argmin_def)
next
  case False
  then have "\<forall>x\<in>set xs. \<not> np_isnan x" by (simp add: list_ex_iff)
  from np_least_exists [OF assms this]
  have "\<exists>x\<in>set xs. \<not> \<not> list_all (np_le x) xs" by (simp add: list_all_iff)
  from takeWhile_stops(1) [OF this] show ?thesis using False by (simp add: argmin_def)
qed

text \<open>On finite numbers it is the first position of the minimum.\<close>

lemma argmin_finite:
  assumes "rs \<noteq> []"
  shows "argmin (map Fin rs) < length rs"
    and "\<And>j. j < length rs \<Longrightarrow> rs ! argmin (map Fin rs) \<le> rs ! j"
    and "\<And>j. j < argmin (map Fin rs) \<Longrightarrow> rs ! j \<noteq> rs ! argmin (map Fin rs)"
proof -
  let ?xs = "map Fin rs"
  let ?P = "\<lambda>x. \<not> list_all (np_le x) ?xs"
  have nn: "\<not> list_ex np_isnan ?xs" by (simp add: list_ex_iff)
  then have am: "argmin ?xs = length (takeWhile ?P ?xs)" by (simp add: argmin_def)
  have le: "list_all (np_le (Fin r)) ?xs \<longleftrightarrow> (\<forall>y\<in>set rs. r \<le> y)" for r
    by (simp add: list_all_iff)
  have mn: "Min (set rs) \<in> set rs" using assms by simp
  have "list_all (np_le (Fin (Min (set rs)))) ?xs" unfolding le by simp
  moreover have "Fin (Min (set rs)) \<in> set ?xs" using mn by simp
  ultimately have ex: "\<exists>x\<in>set ?xs. \<not> ?P x" by blast
  show lt: "argmin (map Fin rs) < length rs"
    using takeWhile_stops(1) [OF ex] am by simp
  have "\<not> ?P (?xs ! argmin ?xs)" using takeWhile_stops(2) [OF ex] am by simp
  then have least: "\<forall>y\<in>set rs. rs ! argmin ?xs \<le> y" using lt le by simp
  show "\<And>j. j < length rs \<Longrightarrow> rs ! argmin (map Fin rs) \<le> rs ! j"
    using least by simp
  show "\<And>j. j < argmin (map Fin rs) \<Longrightarrow> rs ! j \<noteq> rs ! argmin (map Fin rs)"
  proof
    fix j assume j: "j < argmin ?xs" and e: "rs ! j = rs ! argmin ?xs"
    have "?P (?xs ! j)" using takeWhile_before [of j ?P ?xs] j am by simp
    moreover have "?xs ! j = Fin (rs ! j)" using j lt by simp
    ultimately show False using le least e by simp
  qed
qed

lemma concat_uniform_length:
  "\<forall>xs\<in>set xss. length xs = c \<Longrightarrow> length (concat xss) = length xss * c"
  by (induction xss) auto

lemma concat_uniform_nth:
  "\<forall>xs\<in>set xss. length xs = c \<Longrightarrow> i < length xss \<Longrightarrow> j < c \<Longrightarrow>
     concat xss ! (i * c + j) = xss ! i ! j"
proof (induction xss arbitrary: i)
  case Nil
  then show ?case by simp
next
  case (Cons xs xss)
  show ?case
  proof (cases i)
    case 0
    then show ?thesis using Cons.prems by (simp add: nth_append)
  next
    case (Suc i')
    then show ?thesis using Cons.prems Cons.IH [of i'] by (simp add: nth_append)
  qed
qed

lemma mean_axis0_rows: "\<forall>r\<in>set (mean_axis0 d k a). length r = a"
  by (auto simp: mean_axis0_def)

lemma length_mean_axis0: "length (mean_axis0 d k a) = k"
  by (simp add: mean_axis0_def)

lemma index_bounds:
  fixes i j a k :: nat
  assumes "i < k" "j < a"
  shows "i * a + j < k * a"
proof -
  have "i * a + j < i * a + a" using assms by simp
  also have "\<dots> = Suc i * a" by simp
  also have "\<dots> \<le> k * a" using assms by (intro mult_le_mono1) simp
  finally show ?thesis .
qed

lemma best_index_props:
  assumes "best_index dp k a = Inr (bl, ba)"
  shows "bl < k" and "ba < a"
    and "bl * a + ba = argmin (concat (mean_axis0 dp k a))"
proof -
  let ?flat = "concat (mean_axis0 dp k a)"
  have ne: "?flat \<noteq> []" and idx: "bl = argmin ?flat div a" "ba = argmin ?flat mod a"
    using assms(1) by (auto simp: best_index_def Let_def unravel_index_def split: if_splits)
  have len: "length ?flat = k * a"
    using concat_uniform_length [OF mean_axis0_rows, of dp k a] by (simp add: length_mean_axis0)
  have lt: "argmin ?flat < k * a" using argmin_less [OF ne] len by simp
  then have apos: "0 < a" by (cases a) auto
  show "bl < k" using lt apos idx by (simp add: less_mult_imp_div_less)
  show "ba < a" using apos idx by simp
  show "bl * a + ba = argmin ?flat" using idx by simp
qed

lemma np_sum_Fin: "np_sum (map Fin xs) = Fin (sum_list xs)"
  by (induction xs) (simp_all add: np_sum_def)

lemma np_mean_Fin: "xs \<noteq> [] \<Longrightarrow> np_mean (map Fin xs) = Fin (sum_list xs / real (length xs))"
  by (simp add: np_mean_def np_sum_Fin np_div_def)

lemma select_best_cases:
  assumes "select_best l1s al dp a = Inr (l1, alpha)"
  shows "\<exists>bl ba. best_index dp (length l1s) a = Inr (bl, ba) \<and> bl < length l1s \<and> l1 = l1s ! bl
           \<and> (if 1 < length l1s
               then \<exists>m. al = A2 m \<and> bl < length m \<and> ba < length (m ! bl) \<and> alpha = m ! bl ! ba
               else \<exists>v. al = A1 v \<and> ba < length v \<and> alpha = v ! ba)"
proof -
  from assms obtain bl ba where bi: "best_index dp (length l1s) a = Inr (bl, ba)"
    and g: "get l1s bl = Inr l1"
    and al: "(if 1 < length l1s then alphas_at2 al bl ba else alphas_at1 al ba) = Inr alpha"
    by (auto simp: select_best_def split: sum.splits prod.splits)
  from g have l: "bl < length l1s" "l1 = l1s ! bl" by (auto simp: get_def split: if_splits)
  have "if 1 < length l1s
        then \<exists>m. al = A2 m \<and> bl < length m \<and> ba < length (m ! bl) \<and> alpha = m ! bl ! ba
        else \<exists>v. al = A1 v \<and> ba < length v \<and> alpha = v ! ba"
    using al by (cases al) (auto simp: get_def split: if_splits sum.splits)
  then show ?thesis using bi l by blast
qed

subsection \<open>The phases of a successful \<open>fit\<close>\<close>

lemma fit_path_state:
  assumes "fit_path C cfg P1 P2v stype s tr te X y l as w off lb ub A b = (s', r)"
  shows "alphas' s' = alphas' s \<and>
         (\<exists>evs. trace s' = trace s @ evs \<and> EvSolve \<notin> set evs \<and> (\<forall>x. EvAlphaPath x \<notin> set evs))"
  using assms
  by (auto simp: fit_path_def emit_def Let_def split: sum.splits prod.splits if_splits)

lemma fit_path_result_indep:
  "snd (fit_path C cfg P1 P2v stype s tr te X y l as w off lb ub A b)
     = snd (fit_path C cfg P1 P2v stype s0 tr te X y l as w off lb ub A b)"
  by (auto simp: fit_path_def emit_def Let_def split: sum.splits prod.splits if_splits)

lemma run_jobs_state:
  assumes step: "\<And>s j s' r. f s j = (s', r) \<Longrightarrow> alphas' s' = alphas' s \<and>
         (\<exists>evs. trace s' = trace s @ evs \<and> EvSolve \<notin> set evs \<and> (\<forall>x. EvAlphaPath x \<notin> set evs))"
  shows "run_jobs f s js = (s', r) \<Longrightarrow> alphas' s' = alphas' s \<and>
         (\<exists>evs. trace s' = trace s @ evs \<and> EvSolve \<notin> set evs \<and> (\<forall>x. EvAlphaPath x \<notin> set evs))"
proof (induction js arbitrary: s s' r)
  case Nil
  then show ?case by simp
next
  case (Cons j js)
  obtain s1 r1 where f: "f s j = (s1, r1)" by (cases "f s j")
  from step [OF f] obtain e1 where s1: "alphas' s1 = alphas' s" "trace s1 = trace s @ e1"
    "EvSolve \<notin> set e1" "\<forall>x. EvAlphaPath x \<notin> set e1" by blast
  show ?case
  proof (cases r1)
    case (Inl e)
    then have "s' = s1" using Cons.prems f by simp
    then show ?thesis using s1 by blast
  next
    case (Inr v)
    obtain s2 r2 where rj: "run_jobs f s1 js = (s2, r2)" by (cases "run_jobs f s1 js")
    from Cons.IH [OF rj] obtain e2 where s2: "alphas' s2 = alphas' s1" "trace s2 = trace s1 @ e2"
      "EvSolve \<notin> set e2" "\<forall>x. EvAlphaPath x \<notin> set e2" by blast
    have "s' = s2" using Cons.prems f Inr rj by (cases r2) auto
    then have "alphas' s' = alphas' s" "trace s' = trace s @ (e1 @ e2)"
      "EvSolve \<notin> set (e1 @ e2)" "\<forall>x. EvAlphaPath x \<notin> set (e1 @ e2)"
      using s1 s2 by auto
    then show ?thesis by blast
  qed
qed

lemma run_jobs_results:
  "run_jobs f s js = (s', Inr rs) \<Longrightarrow>
     length rs = length js \<and> (\<forall>i<length js. \<exists>si. snd (f si (js ! i)) = Inr (rs ! i))"
proof (induction js arbitrary: s s' rs)
  case Nil
  then show ?case by simp
next
  case (Cons j js)
  obtain s1 r1 where f: "f s j = (s1, r1)" by (cases "f s j")
  obtain s2 r2 where rj: "run_jobs f s1 js = (s2, r2)" by (cases "run_jobs f s1 js")
  from Cons.prems f rj obtain v vs where v: "r1 = Inr v" "r2 = Inr vs" "rs = v # vs"
    by (cases r1; cases r2) auto
  from Cons.IH [OF rj [unfolded v]] have ih: "length vs = length js"
    "\<forall>i<length js. \<exists>si. snd (f si (js ! i)) = Inr (vs ! i)" by auto
  have "\<exists>si. snd (f si ((j # js) ! i)) = Inr (rs ! i)" if "i < length (j # js)" for i
  proof (cases i)
    case 0
    then show ?thesis using f v by (auto intro: exI [of _ s])
  next
    case (Suc i')
    then show ?thesis using ih that v by simp
  qed
  then show ?case using ih v by simp
qed

lemma assemble_paths_success:
  assumes "assemble_paths C l1s grid s paths = (s2, Inr dp)"
  shows "grid \<noteq> [] \<and>
    rect (map (\<lambda>(i, c, d, t). c) paths) \<and> rect (concat (map (\<lambda>(i, c, d, t). c) paths)) \<and>
    rect (map (\<lambda>(i, c, d, t). d) paths) \<and>
    (\<exists>ip cp.
       reshape4 (concat (concat (map (\<lambda>(i, c, d, t). c) paths)))
         (cv_get_n_splits C) (length l1s) (length (hd grid)) = Inr cp \<and>
       reshape3 (concat (map (\<lambda>(i, c, d, t). d) paths))
         (cv_get_n_splits C) (length l1s) (length (hd grid)) = Inr dp \<and>
       s2 = s\<lparr>intercept_path' := Some ip, coef_path' := Some cp, deviance_path' := Some dp,
              train_indices' := Some (map (\<lambda>(i, c, d, t). t) paths)\<rparr>)"
  using assms
  by (auto simp: assemble_paths_def Let_def split: sum.splits if_splits)

lemma refit_success:
  assumes "refit C cfg X y w off wsum P1 P2v stype lb ub store l1 alpha s = (st, None)"
    and "standardize C X (map Fin w) (center_predictors C) (scale_predictors cfg) lb ub (A_ineq cfg)
           (setup_p1 C P1 X alpha l1) (setup_p2 C P2v X stype alpha l1)
         = (Xs, means, stds, lb1, ub1, A_ineq1, P1s, P2s)"
  defines "coef \<equiv> solve C Xs y (map Fin w) P2s P1s
                     (get_start_coef C Xs y (map Fin w) off means stds) off lb1 ub1 A_ineq1 (b_ineq cfg)"
  shows "\<not> (fit_intercept cfg \<and> coef = [])"
    and "st = s\<lparr>col_means' := Some means, col_stds' := Some stds,
               intercept' := Some (fst (if fit_intercept cfg
                                        then unstandardize C means stds (hd coef) (tl coef)
                                        else unstandardize C means stds 0 coef)),
               coef' := Some (snd (if fit_intercept cfg
                                   then unstandardize C means stds (hd coef) (tl coef)
                                   else unstandardize C means stds 0 coef)),
               covariance_matrix' := (if store
                                      then Some (covariance_matrix C Xs y off
                                                   (map (\<lambda>x. x * wsum) w))
                                      else None),
               trace := trace s @ [EvSolve]\<rparr>"
  using assms
  by (auto simp: refit_def emit_def Let_def split: prod.splits if_splits)

lemma fit_success:
  assumes "fit C cfg X0 y0 w0 off0 store self = (st, None)"
  shows "\<exists>X y w off wsum P1 P2v s0 grid al lb ub s1 paths s2 dp al2 l1 alpha.
    validate_hyperparameters C cfg = None \<and>
    set_up_and_check_fit_args C cfg X0 y0 w0 off0 = Inr (X, y, w, off, wsum, P1, P2v) \<and>
    \<not> (family_power C = Some (3 / 2) \<and> \<not> link_is_log C) \<and>
    alpha_grid C cfg (atleast_1d (l1_ratio cfg)) X y w (emit EvSetUpArgs self) = (s0, grid) \<and>
    stored_alphas (alphas cfg) (atleast_1d (l1_ratio cfg)) grid = Inr al \<and>
    check_bounds C (lower_bounds cfg) (n_features X) = Inr lb \<and>
    check_bounds C (upper_bounds cfg) (n_features X) = Inr ub \<and>
    run_jobs (\<lambda>s (train_idx, test_idx, this_l1_ratio, this_alphas).
                  fit_path C cfg P1 P2v (stype_of C) s train_idx test_idx X y this_l1_ratio
                    this_alphas w off lb ub (A_ineq cfg) (b_ineq cfg))
       (s0\<lparr>alphas' := Some al\<rparr>) (jobs (cv_split C X y) (atleast_1d (l1_ratio cfg)) grid)
      = (s1, Inr paths) \<and>
    assemble_paths C (atleast_1d (l1_ratio cfg)) grid s1 paths = (s2, Inr dp) \<and>
    alphas' s2 = Some al2 \<and>
    select_best (atleast_1d (l1_ratio cfg)) al2 dp (length (hd grid)) = Inr (l1, alpha) \<and>
    refit C cfg X y w off wsum P1 P2v (stype_of C) lb ub store l1 alpha
      (s2\<lparr>l1_ratio' := Some l1, alpha' := Some alpha\<rparr>) = (st, None)"
  using assms unfolding fit_def fit_cv_def Let_def
  by (auto split: option.splits sum.splits prod.splits if_splits)

lemma refit_frame:
  assumes "refit C cfg X y w off wsum P1 P2v stype lb ub store l1 alpha s = (st, r)"
  shows "alphas' st = alphas' s \<and> deviance_path' st = deviance_path' s
       \<and> coef_path' st = coef_path' s \<and> intercept_path' st = intercept_path' s
       \<and> l1_ratio' st = l1_ratio' s \<and> alpha' st = alpha' s
       \<and> train_indices' st = train_indices' s"
  using assms
  by (auto simp: refit_def emit_def Let_def split: prod.splits if_splits)

lemma refit_trace:
  "refit C cfg X y w off wsum P1 P2v stype lb ub store l1 alpha s = (st, None) \<Longrightarrow>
     trace st = trace s @ [EvSolve]"
  by (auto simp: refit_def emit_def Let_def split: prod.splits if_splits)

lemma alpha_grid_length: "alpha_grid C cfg l1s X y w s = (s0, grid) \<Longrightarrow> length grid = length l1s"
  by (auto simp: alpha_grid_def split: option.splits)

lemma alpha_grid_state:
  "alpha_grid C cfg l1s X y w s = (s0, grid) \<Longrightarrow>
     \<exists>evs. s0 = s\<lparr>trace := trace s @ evs\<rparr> \<and> (alphas cfg \<noteq> None \<longrightarrow> evs = []) \<and> EvSolve \<notin> set evs"
  by (auto simp: alpha_grid_def split: option.splits)

lemma run_jobs_fit_path_state:
  assumes "run_jobs (\<lambda>s (train_idx, test_idx, this_l1_ratio, this_alphas).
                  fit_path C cfg P1 P2v stype s train_idx test_idx X y this_l1_ratio
                    this_alphas w off lb ub A b) s js = (s', r)"
  shows "alphas' s' = alphas' s \<and>
         (\<exists>evs. trace s' = trace s @ evs \<and> EvSolve \<notin> set evs \<and> (\<forall>x. EvAlphaPath x \<notin> set evs))"
  using assms
proof (rule run_jobs_state [rotated])
  fix s1 j s2 r1
  assume "(case j of (train_idx, test_idx, this_l1_ratio, this_alphas) \<Rightarrow>
             fit_path C cfg P1 P2v stype s1 train_idx test_idx X y this_l1_ratio
               this_alphas w off lb ub A b) = (s2, r1)"
  then show "alphas' s2 = alphas' s1 \<and>
         (\<exists>evs. trace s2 = trace s1 @ evs \<and> EvSolve \<notin> set evs \<and> (\<forall>x. EvAlphaPath x \<notin> set evs))"
    by (cases j) (auto dest: fit_path_state)
qed

text \<open>What a successful run leaves in the estimator.\<close>

lemma fit_success_state:
  assumes "fit C cfg X0 y0 w0 off0 store self = (st, None)"
  defines "l1s \<equiv> atleast_1d (l1_ratio cfg)"
  shows "\<exists>X y w off wsum P1 P2v s0 grid al lb ub s1 paths s2 dp l1 alpha evs.
    set_up_and_check_fit_args C cfg X0 y0 w0 off0 = Inr (X, y, w, off, wsum, P1, P2v) \<and>
    alpha_grid C cfg l1s X y w (emit EvSetUpArgs self) = (s0, grid) \<and>
    stored_alphas (alphas cfg) l1s grid = Inr al \<and>
    check_bounds C (lower_bounds cfg) (n_features X) = Inr lb \<and>
    check_bounds C (upper_bounds cfg) (n_features X) = Inr ub \<and>
    run_jobs (\<lambda>s (train_idx, test_idx, this_l1_ratio, this_alphas).
                  fit_path C cfg P1 P2v (stype_of C) s train_idx test_idx X y this_l1_ratio
                    this_alphas w off lb ub (A_ineq cfg) (b_ineq cfg))
       (s0\<lparr>alphas' := Some al\<rparr>) (jobs (cv_split C X y) l1s grid) = (s1, Inr paths) \<and>
    assemble_paths C l1s grid s1 paths = (s2, Inr dp) \<and>
    select_best l1s al dp (length (hd grid)) = Inr (l1, alpha) \<and>
    refit C cfg X y w off wsum P1 P2v (stype_of C) lb ub store l1 alpha
      (s2\<lparr>l1_ratio' := Some l1, alpha' := Some alpha\<rparr>) = (st, None) \<and>
    alphas' st = Some al \<and> deviance_path' st = Some dp \<and>
    l1_ratio' st = Some l1 \<and> alpha' st = Some alpha \<and>
    coef_path' st = coef_path' s2 \<and>
    trace st = trace s0 @ evs @ [EvSolve] \<and> EvSolve \<notin> set evs \<and>
    (\<forall>x. EvAlphaPath x \<notin> set evs)"
proof -
  from fit_success [OF assms(1)] obtain X y w off wsum P1 P2v s0 grid al lb ub s1 paths s2 dp al2 l1 alpha
    where su: "set_up_and_check_fit_args C cfg X0 y0 w0 off0 = Inr (X, y, w, off, wsum, P1, P2v)"
      and ag: "alpha_grid C cfg l1s X y w (emit EvSetUpArgs self) = (s0, grid)"
      and sa: "stored_alphas (alphas cfg) l1s grid = Inr al"
      and cb: "check_bounds C (lower_bounds cfg) (n_features X) = Inr lb"
              "check_bounds C (upper_bounds cfg) (n_features X) = Inr ub"
      and rj: "run_jobs (\<lambda>s (train_idx, test_idx, this_l1_ratio, this_alphas).
                  fit_path C cfg P1 P2v (stype_of C) s train_idx test_idx X y this_l1_ratio
                    this_alphas w off lb ub (A_ineq cfg) (b_ineq cfg))
                (s0\<lparr>alphas' := Some al\<rparr>) (jobs (cv_split C X y) l1s grid) = (s1, Inr paths)"
      and asm: "assemble_paths C l1s grid s1 paths = (s2, Inr dp)"
      and a2: "alphas' s2 = Some al2"
      and sb: "select_best l1s al2 dp (length (hd grid)) = Inr (l1, alpha)"
      and rf: "refit C cfg X y w off wsum P1 P2v (stype_of C) lb ub store l1 alpha
                 (s2\<lparr>l1_ratio' := Some l1, alpha' := Some alpha\<rparr>) = (st, None)"
    unfolding l1s_def by blast
  from run_jobs_fit_path_state [OF rj]
  obtain evs where s1: "alphas' s1 = Some al" "trace s1 = trace s0 @ evs"
    "EvSolve \<notin> set evs" "\<forall>x. EvAlphaPath x \<notin> set evs" by auto
  from assemble_paths_success [OF asm] obtain ip cp where
    s2: "s2 = s1\<lparr>intercept_path' := Some ip, coef_path' := Some cp, deviance_path' := Some dp,
              train_indices' := Some (map (\<lambda>(i, c, d, t). t) paths)\<rparr>" by blast
  have al2: "al2 = al" using a2 s1 s2 by simp
  have tr: "trace st = trace s0 @ evs @ [EvSolve]" using s1 s2 refit_trace [OF rf] by simp
  from refit_frame [OF rf] have fin: "alphas' st = Some al" "deviance_path' st = Some dp"
      "l1_ratio' st = Some l1" "alpha' st = Some alpha" "coef_path' st = coef_path' s2"
    using s1 s2 by simp_all
  show ?thesis
    using su ag sa cb rj asm sb [unfolded al2] rf fin tr s1(3,4) by blast
qed

subsection \<open>The runs of the small instance\<close>

lemma toy_run:
  "fit toy toy_config toy_X (Some toy_y) (Some [1, 3]) None False unfitted = (toy_fitted, None)"
  by code_simp

lemma toy_run_two:
  "fit toy (toy_config\<lparr>l1_ratio := L1Array [0, 1]\<rparr>) toy_X (Some toy_y) (Some [1, 3]) None False
     unfitted = (toy_fitted_two, None)"
  by code_simp

lemma toy_run_explicit:
  "fit toy (toy_config\<lparr>alphas := Some [1, 1 / 10, 1 / 100], l1_ratio := L1Scalar (3 / 10)\<rparr>)
     toy_X (Some toy_y) (Some [1, 3]) None False unfitted = (toy_fitted_explicit, None)"
  by code_simp

lemma stored_alphas_cases:
  assumes "stored_alphas given l1s grid = Inr al" and "length grid = length l1s"
    and "grid \<noteq> []"
  shows "if length l1s = 1 then al = A1 (grid ! 0) else al = A2 grid \<and> rect grid"
  using assms by (auto simp: stored_alphas_def get_def split: if_splits sum.splits)

lemma reshape3_shape:
  assumes "reshape3 flat n k a = Inr dp"
  shows "length flat = n * k * a" and "length dp = n"
    and "\<And>f. f < n \<Longrightarrow> length (dp ! f) = k"
    and "\<And>f l. f < n \<Longrightarrow> l < k \<Longrightarrow> length (dp ! f ! l) = a"
    and "\<And>f l j. f < n \<Longrightarrow> l < k \<Longrightarrow> j < a \<Longrightarrow> dp ! f ! l ! j = flat ! ((f * k + l) * a + j)"
  using assms by (auto simp: reshape3_def split: if_splits)

lemma reshape4_shape:
  assumes "reshape4 flat n k a = Inr cp"
  defines "d \<equiv> length flat div (n * k * a)"
  shows "0 < n" and "0 < k" and "0 < a" and "length flat = n * k * a * d" and "length cp = n"
    and "\<And>f. f < n \<Longrightarrow> length (cp ! f) = k"
    and "\<And>f l. f < n \<Longrightarrow> l < k \<Longrightarrow> length (cp ! f ! l) = a"
    and "\<And>f l j. f < n \<Longrightarrow> l < k \<Longrightarrow> j < a \<Longrightarrow> length (cp ! f ! l ! j) = d"
    and "\<And>f l j m. f < n \<Longrightarrow> l < k \<Longrightarrow> j < a \<Longrightarrow> m < d \<Longrightarrow>
           cp ! f ! l ! j ! m = flat ! (((f * k + l) * a + j) * d + m)"
  using assms by (auto simp: reshape4_def Let_def split: if_splits)

subsection \<open>The shape of \<open>alphas_\<close>\<close>

text \<open>
  Claim C10. After a successful \<open>fit\<close>, with \<open>k\<close> the number of mixing ratios (\<open>k = 1\<close> for a
  scalar \<open>l1_ratio\<close>) and \<open>(bl, ba)\<close> the position of the flattened argmin: when \<open>k = 1\<close>,
  \<open>alphas_\<close> is a vector, as long as the last axis of \<open>deviance_path_\<close>, and \<open>alpha_\<close> is
  \<open>alphas_[ba]\<close>; otherwise \<open>k\<close> is at least 2, \<open>alphas_\<close> is a matrix with \<open>k\<close> rows of that
  length, and \<open>alpha_\<close> is \<open>alphas_[bl, ba]\<close>.
\<close>

theorem alphas_attr_dimension:
  assumes "fit C cfg X0 y0 sample_weight0 offset0 store self = (st, None)"
  defines "k \<equiv> length (atleast_1d (l1_ratio cfg))"
  shows "\<exists>dp bl ba.
    deviance_path' st = Some dp \<and> best_index dp k (length (dp ! 0 ! 0)) = Inr (bl, ba) \<and>
    (k = 1 \<longrightarrow>
      (\<exists>v. alphas' st = Some (A1 v) \<and> length v = length (dp ! 0 ! 0) \<and> ba < length v
           \<and> alpha' st = Some (v ! ba))) \<and>
    (k \<noteq> 1 \<longrightarrow> 2 \<le> k \<and>
      (\<exists>m. alphas' st = Some (A2 m) \<and> length m = k \<and> (\<forall>r\<in>set m. length r = length (dp ! 0 ! 0))
           \<and> bl < k \<and> ba < length (dp ! 0 ! 0) \<and> alpha' st = Some (m ! bl ! ba)))"
proof -
  let ?l1s = "atleast_1d (l1_ratio cfg)"
  from fit_success_state [OF assms(1)] obtain X y w s0 grid al s1 paths s2 dp l1 alpha
    where ag: "alpha_grid C cfg ?l1s X y w (emit EvSetUpArgs self) = (s0, grid)"
      and sa: "stored_alphas (alphas cfg) ?l1s grid = Inr al"
      and asm: "assemble_paths C ?l1s grid s1 paths = (s2, Inr dp)"
      and sb: "select_best ?l1s al dp (length (hd grid)) = Inr (l1, alpha)"
      and st: "alphas' st = Some al" "deviance_path' st = Some dp" "alpha' st = Some alpha"
    by blast
  let ?a = "length (hd grid)"
  have lg: "length grid = k" unfolding k_def by (rule alpha_grid_length [OF ag])
  from assemble_paths_success [OF asm] obtain cp where
    gne: "grid \<noteq> []"
    and r4: "reshape4 (concat (concat (map (\<lambda>(i, c, d, t). c) paths)))
               (cv_get_n_splits C) k ?a = Inr cp"
    and r3: "reshape3 (concat (map (\<lambda>(i, c, d, t). d) paths)) (cv_get_n_splits C) k ?a = Inr dp"
    unfolding k_def by blast
  note pos = reshape4_shape(1-3) [OF r4]
  have da: "length (dp ! 0 ! 0) = ?a" using reshape3_shape(4) [OF r3 pos(1) pos(2)] .
  from select_best_cases [OF sb] obtain bl ba
    where bi: "best_index dp k ?a = Inr (bl, ba)" and bl: "bl < k"
      and alc: "if 1 < k
                then \<exists>m. al = A2 m \<and> bl < length m \<and> ba < length (m ! bl) \<and> alpha = m ! bl ! ba
                else \<exists>v. al = A1 v \<and> ba < length v \<and> alpha = v ! ba"
    unfolding k_def by blast
  note bp = best_index_props(2) [OF bi]
  note sc = stored_alphas_cases [OF sa lg [unfolded k_def] gne, folded k_def]
  have one: "\<exists>v. alphas' st = Some (A1 v) \<and> length v = length (dp ! 0 ! 0) \<and> ba < length v
           \<and> alpha' st = Some (v ! ba)" if "k = 1"
  proof -
    have "al = A1 (grid ! 0)" using sc that by simp
    moreover have "grid ! 0 = hd grid" using gne by (simp add: hd_conv_nth)
    ultimately show ?thesis using st alc that da by auto
  qed
  have two: "2 \<le> k \<and>
      (\<exists>m. alphas' st = Some (A2 m) \<and> length m = k \<and> (\<forall>r\<in>set m. length r = length (dp ! 0 ! 0))
           \<and> bl < k \<and> ba < length (dp ! 0 ! 0) \<and> alpha' st = Some (m ! bl ! ba))" if "k \<noteq> 1"
  proof -
    have k2: "2 \<le> k" using pos(2) that by simp
    have "al = A2 grid" "rect grid" using sc that by simp_all
    then have "\<forall>r\<in>set grid. length r = ?a" by (simp add: rect_def list_all_iff)
    then show ?thesis using k2 st \<open>al = A2 grid\<close> lg bl bp da alc by auto
  qed
  show ?thesis using st(2) bi da one two by auto
qed

theorem alphas_attr_dimension_witness:
  "fit toy toy_config toy_X (Some toy_y) (Some [1, 3]) None False unfitted = (toy_fitted, None)
   \<and> length (atleast_1d (l1_ratio toy_config)) = 1
   \<and> (\<exists>v ba. alphas' toy_fitted = Some (A1 v) \<and> ba < length v \<and> alpha' toy_fitted = Some (v ! ba))
   \<and> fit toy (toy_config\<lparr>l1_ratio := L1Array [0, 1]\<rparr>) toy_X (Some toy_y) (Some [1, 3]) None
         False unfitted = (toy_fitted_two, None)
   \<and> length (atleast_1d (l1_ratio (toy_config\<lparr>l1_ratio := L1Array [0, 1]\<rparr>))) \<noteq> 1
   \<and> (\<exists>m bl ba. alphas' toy_fitted_two = Some (A2 m) \<and> length m = 2
         \<and> alpha' toy_fitted_two = Some (m ! bl ! ba))"
proof -
  have k1: "length (atleast_1d (l1_ratio toy_config)) = 1" by (simp add: toy_config_def)
  have k2: "length (atleast_1d (l1_ratio (toy_config\<lparr>l1_ratio := L1Array [0, 1]\<rparr>))) = 2" by simp
  have a: "\<exists>v ba. alphas' toy_fitted = Some (A1 v) \<and> ba < length v \<and> alpha' toy_fitted = Some (v ! ba)"
    using alphas_attr_dimension [OF toy_run] k1 by fastforce
  have b: "\<exists>m bl ba. alphas' toy_fitted_two = Some (A2 m) \<and> length m = 2
         \<and> alpha' toy_fitted_two = Some (m ! bl ! ba)"
    using alphas_attr_dimension [OF toy_run_two] k2 by fastforce
  show ?thesis using toy_run toy_run_two k1 k2 a b by simp
qed

lemma stored_alphas_explicit:
  "stored_alphas (Some as) l1s (replicate (length l1s) r) = Inr al \<Longrightarrow>
     al = (if length l1s = 1 then A1 r else A2 (replicate (length l1s) r))"
  by (auto simp: stored_alphas_def get_def split: if_splits sum.splits)

subsection \<open>The final fit\<close>

text \<open>
  Claim C2. After a successful \<open>fit\<close>, with \<open>X\<close>, \<open>y\<close>, \<open>sample_weight\<close>, \<open>P1\<close>, \<open>P2\<close> what the
  preparation of the arguments returned for all samples: the penalties are set up at the
  selected \<open>(alpha_, l1_ratio_)\<close>, the full \<open>X\<close> is standardised with the full weights,
  \<open>col_means_\<close> and \<open>col_stds_\<close> are the statistics of that standardisation (those written by
  the jobs are overwritten), \<open>intercept_\<close> and \<open>coef_\<close> are the unstandardised solution of the
  one call of the solver on that data, and \<open>fit\<close> has called that solver exactly once.
\<close>

theorem final_fit_on_full_data:
  assumes "fit C cfg X0 y0 sample_weight0 offset0 store self = (st, None)"
    and "set_up_and_check_fit_args C cfg X0 y0 sample_weight0 offset0
           = Inr (X, y, sample_weight, offset, weights_sum, P1, P2v)"
    and "check_bounds C (lower_bounds cfg) (n_features X) = Inr lb"
    and "check_bounds C (upper_bounds cfg) (n_features X) = Inr ub"
  shows "\<exists>l1 alpha.
    l1_ratio' st = Some l1 \<and> alpha' st = Some alpha \<and>
    (case standardize C X (map Fin sample_weight) (center_predictors C) (scale_predictors cfg)
            lb ub (A_ineq cfg)
            (setup_p1 C P1 X alpha l1) (setup_p2 C P2v X (stype_of C) alpha l1) of
       (Xs, means, stds, lb1, ub1, A_ineq1, P1s, P2s) \<Rightarrow>
         col_means' st = Some means \<and> col_stds' st = Some stds \<and>
         (let coef = solve C Xs y (map Fin sample_weight) P2s P1s
                       (get_start_coef C Xs y (map Fin sample_weight) offset means stds)
                       offset lb1 ub1 A_ineq1 (b_ineq cfg);
              u = (if fit_intercept cfg then unstandardize C means stds (hd coef) (tl coef)
                   else unstandardize C means stds 0 coef)
          in intercept' st = Some (fst u) \<and> coef' st = Some (snd u))) \<and>
    length (filter (\<lambda>e. e = EvSolve) (trace st))
      = Suc (length (filter (\<lambda>e. e = EvSolve) (trace self)))"
proof -
  let ?l1s = "atleast_1d (l1_ratio cfg)"
  from fit_success_state [OF assms(1)] assms(2-4)
  obtain s0 grid s2 l1 alpha evs
    where ag: "alpha_grid C cfg ?l1s X y sample_weight (emit EvSetUpArgs self) = (s0, grid)"
      and rf: "refit C cfg X y sample_weight offset weights_sum P1 P2v (stype_of C) lb ub store
                 l1 alpha (s2\<lparr>l1_ratio' := Some l1, alpha' := Some alpha\<rparr>) = (st, None)"
      and st: "l1_ratio' st = Some l1" "alpha' st = Some alpha"
      and tr: "trace st = trace s0 @ evs @ [EvSolve]" "EvSolve \<notin> set evs"
    by auto
  obtain Xs rest where
    sd0: "standardize C X (map Fin sample_weight) (center_predictors C) (scale_predictors cfg)
            lb ub (A_ineq cfg)
            (setup_p1 C P1 X alpha l1) (setup_p2 C P2v X (stype_of C) alpha l1) = (Xs, rest)"
    by (rule prod.exhaust)
  obtain means stds lb1 ub1 A_ineq1 P1s P2s where
    "rest = (means, stds, lb1, ub1, A_ineq1, P1s, P2s)"
    by (cases rest rule: prod_cases7)
  with sd0 have
    sd: "standardize C X (map Fin sample_weight) (center_predictors C) (scale_predictors cfg)
            lb ub (A_ineq cfg)
            (setup_p1 C P1 X alpha l1) (setup_p2 C P2v X (stype_of C) alpha l1)
         = (Xs, means, stds, lb1, ub1, A_ineq1, P1s, P2s)"
    by simp
  note rs = refit_success(2) [OF rf sd]
  from alpha_grid_state [OF ag] obtain aevs where
    "trace s0 = trace self @ [EvSetUpArgs] @ aevs" "EvSolve \<notin> set aevs"
    by (auto simp: emit_def)
  then have cnt: "length (filter (\<lambda>e. e = EvSolve) (trace st))
      = Suc (length (filter (\<lambda>e. e = EvSolve) (trace self)))"
    using tr by (auto simp: filter_empty_conv)
  show ?thesis
    using st cnt by (simp add: sd rs Let_def)
qed

theorem final_fit_on_full_data_witness:
  "fit toy toy_config toy_X (Some toy_y) (Some [1, 3]) None False unfitted = (toy_fitted, None)
   \<and> set_up_and_check_fit_args toy toy_config toy_X (Some toy_y) (Some [1, 3]) None
       = Inr (toy_X, toy_y, [1, 3], None, 1, [1], P2Vec [1])
   \<and> check_bounds toy (lower_bounds toy_config) (n_features toy_X) = Inr None
   \<and> check_bounds toy (upper_bounds toy_config) (n_features toy_X) = Inr None
   \<and> l1_ratio' toy_fitted = Some 0 \<and> alpha' toy_fitted = Some (1 / 2)
   \<and> standardize toy toy_X (map Fin [1, 3]) (center_predictors toy) (scale_predictors toy_config)
         None None (A_ineq toy_config)
         (setup_p1 toy [1] toy_X (1 / 2) 0) (setup_p2 toy (P2Vec [1]) toy_X (stype_of toy) (1 / 2) 0)
       = (toy_X, [4], [1], None, None, None, [0], P2Vec [1 / 2])
   \<and> col_means' toy_fitted = Some [4] \<and> col_stds' toy_fitted = Some [1]
   \<and> intercept' toy_fitted = Some 3 \<and> coef' toy_fitted = Some [0]
   \<and> length (filter (\<lambda>e. e = EvSolve) (trace toy_fitted))
       = Suc (length (filter (\<lambda>e. e = EvSolve) (trace unfitted)))"
proof -
  have su: "set_up_and_check_fit_args toy toy_config toy_X (Some toy_y) (Some [1, 3]) None
       = Inr (toy_X, toy_y, [1, 3], None, 1, [1], P2Vec [1])"
    by (simp add: toy_defs)
  have cl: "check_bounds toy (lower_bounds toy_config) (n_features toy_X) = Inr None"
    by (simp add: toy_defs)
  have cu: "check_bounds toy (upper_bounds toy_config) (n_features toy_X) = Inr None"
    by (simp add: toy_defs)
  have sel: "l1_ratio' toy_fitted = Some 0" "alpha' toy_fitted = Some (1 / 2)"
    by (simp_all add: toy_fitted_def)
  have sd: "standardize toy toy_X (map Fin [1, 3]) (center_predictors toy)
         (scale_predictors toy_config) None None (A_ineq toy_config)
         (setup_p1 toy [1] toy_X (1 / 2) 0) (setup_p2 toy (P2Vec [1]) toy_X (stype_of toy) (1 / 2) 0)
       = (toy_X, [4], [1], None, None, None, [0], P2Vec [1 / 2])"
    by (simp add: toy_defs)
  from final_fit_on_full_data [OF toy_run su cl cu]
  have "col_means' toy_fitted = Some [4] \<and> col_stds' toy_fitted = Some [1]
      \<and> intercept' toy_fitted = Some 3 \<and> coef' toy_fitted = Some [0]
      \<and> length (filter (\<lambda>e. e = EvSolve) (trace toy_fitted))
          = Suc (length (filter (\<lambda>e. e = EvSolve) (trace unfitted)))"
    unfolding sel by (auto simp: sd Let_def) (simp_all add: toy_defs)
  then show ?thesis using toy_run su cl cu sel sd by blast
qed

subsection \<open>Reshaping the results of the jobs\<close>

lemma jobs_length:
  "length grid = length l1s \<Longrightarrow> length (jobs folds l1s grid) = length folds * length l1s"
  unfolding jobs_def
  by (subst concat_uniform_length [where c = "length l1s"]) (auto split: prod.splits)

lemma jobs_nth:
  assumes "length grid = length l1s" "f < length folds" "l < length l1s"
  shows "jobs folds l1s grid ! (f * length l1s + l) = (fst (folds ! f), snd (folds ! f), l1s ! l, grid ! l)"
proof -
  let ?g = "\<lambda>(train_idx, test_idx). map (\<lambda>(this_l1_ratio, this_alphas).
                      (train_idx, test_idx, this_l1_ratio, this_alphas)) (zip l1s grid)"
  have u: "\<forall>xs\<in>set (map ?g folds). length xs = length l1s"
    using assms(1) by (auto split: prod.splits)
  have "jobs folds l1s grid ! (f * length l1s + l) = map ?g folds ! f ! l"
    unfolding jobs_def using concat_uniform_nth [OF u, of f l] assms by simp
  also have "\<dots> = (fst (folds ! f), snd (folds ! f), l1s ! l, grid ! l)"
    using assms by (simp add: case_prod_beta)
  finally show ?thesis .
qed

lemma rect_all: "rect xss \<Longrightarrow> \<forall>xs\<in>set xss. length xs = length (hd xss)"
  by (simp add: rect_def list_all_iff)

lemma reshape3_concat:
  assumes r: "reshape3 (concat xss) n k a = Inr dp"
    and u: "\<forall>xs\<in>set xss. length xs = a" and len: "length xss = n * k"
    and f: "f < n" and l: "l < k"
  shows "dp ! f ! l = xss ! (f * k + l)"
proof (rule nth_equalityI)
  have i: "f * k + l < length xss" using index_bounds [OF f l] len by simp
  show "length (dp ! f ! l) = length (xss ! (f * k + l))"
    using reshape3_shape(4) [OF r f l] u i by simp
  fix j assume "j < length (dp ! f ! l)"
  then have j: "j < a" using reshape3_shape(4) [OF r f l] by simp
  show "dp ! f ! l ! j = xss ! (f * k + l) ! j"
    using reshape3_shape(5) [OF r f l j] concat_uniform_nth [OF u i j] by simp
qed

lemma reshape4_concat:
  assumes r: "reshape4 (concat (concat ms)) n k a = Inr cp"
    and u: "\<forall>m\<in>set ms. length m = a" and rc: "rect (concat ms)" and len: "length ms = n * k"
    and f: "f < n" and l: "l < k"
  shows "cp ! f ! l = ms ! (f * k + l)"
proof -
  let ?rows = "concat ms"
  let ?r = "length (hd ?rows)"
  let ?flat = "concat ?rows"
  note pos = reshape4_shape(1-3) [OF r]
  have ur: "\<forall>row\<in>set ?rows. length row = ?r" by (rule rect_all [OF rc])
  have lrows: "length ?rows = n * k * a" using concat_uniform_length [OF u] len by simp
  have lflat: "length ?flat = n * k * a * ?r" using concat_uniform_length [OF ur] lrows by simp
  have nka: "0 < n * k * a" using pos by simp
  have d: "length ?flat div (n * k * a) = ?r" using lflat nka by simp
  have i: "f * k + l < length ms" using index_bounds [OF f l] len by simp
  show ?thesis
  proof (rule nth_equalityI)
    show "length (cp ! f ! l) = length (ms ! (f * k + l))"
      using reshape4_shape(7) [OF r f l] u i by simp
    fix j assume "j < length (cp ! f ! l)"
    then have j: "j < a" using reshape4_shape(7) [OF r f l] by simp
    have q: "(f * k + l) * a + j < length ?rows"
      using index_bounds [OF index_bounds [OF f l] j] lrows by simp
    have row: "?rows ! ((f * k + l) * a + j) = ms ! (f * k + l) ! j"
      by (rule concat_uniform_nth [OF u i j])
    have "?rows ! ((f * k + l) * a + j) \<in> set ?rows" using q by (rule nth_mem)
    with ur have lrow: "length (?rows ! ((f * k + l) * a + j)) = ?r" by blast
    show "cp ! f ! l ! j = ms ! (f * k + l) ! j"
    proof (rule nth_equalityI)
      show "length (cp ! f ! l ! j) = length (ms ! (f * k + l) ! j)"
        using reshape4_shape(8) [OF r f l j] d lrow row by simp
      fix m assume "m < length (cp ! f ! l ! j)"
      then have m: "m < ?r" using reshape4_shape(8) [OF r f l j] d by simp
      have "cp ! f ! l ! j ! m = ?flat ! (((f * k + l) * a + j) * ?r + m)"
        using reshape4_shape(9) [OF r f l j, of m] d m by simp
      also have "\<dots> = ?rows ! ((f * k + l) * a + j) ! m"
        by (rule concat_uniform_nth [OF ur q m])
      finally show "cp ! f ! l ! j ! m = ms ! (f * k + l) ! j ! m" using row by simp
    qed
  qed
qed

lemma path_outputs_lengths:
  assumes "path_outputs C cfg means stds coef test offset_test train_idx = Inr (ip, cp, dev, t)"
    and "\<And>means stds ints coefs. length (snd (unstandardize_path C means stds ints coefs)) = length coefs"
  shows "length cp = length coef \<and> length dev = length coef"
proof (cases "fit_intercept cfg")
  case True
  obtain i c where u: "unstandardize_path C means stds (map hd coef) (map tl coef) = (i, c)"
    by (rule prod.exhaust)
  have "length c = length coef" using assms(2) [of means stds "map hd coef" "map tl coef"] u by simp
  then show ?thesis
    using assms(1) True u
    by (auto simp: path_outputs_def split: prod.splits if_splits)
next
  case False
  obtain i c where u: "unstandardize_path C means stds (replicate (length coef) 0) coef = (i, c)"
    by (rule prod.exhaust)
  have "length c = length coef"
    using assms(2) [of means stds "replicate (length coef) 0" coef] u by simp
  then show ?thesis
    using assms(1) False u
    by (auto simp: path_outputs_def split: prod.splits if_splits)
qed

lemma fit_path_lengths:
  assumes "snd (fit_path C cfg P1 P2v stype s tr te X y l as w off lb ub A b) = Inr (ip, cp, dev, t)"
    and rows: "\<And>x_train y_train w_train as P2a P1a coef0 off lb ub A b.
            length (solve_regularization_path C x_train y_train w_train as P2a P1a coef0 off lb ub A b)
              = length as"
    and unst: "\<And>means stds ints coefs.
            length (snd (unstandardize_path C means stds ints coefs)) = length coefs"
  shows "length cp = length as \<and> length dev = length as"
  using assms(1)
  by (auto simp: fit_path_def Let_def rows split: sum.splits prod.splits if_splits
           dest!: path_outputs_lengths [OF _ unst])


text \<open>
  Claim C9. Let the path solver return one row per alpha and let unstandardising keep the
  number of rows. After a successful \<open>fit\<close>, with \<open>n\<close> the number of splits, \<open>k\<close> the number of
  mixing ratios and \<open>a\<close> the number of alphas of a row of the grid: the splitter has yielded
  \<open>n\<close> folds, \<open>deviance_path_\<close> has shape \<open>(n, k, a)\<close>, \<open>coef_path_\<close> has shape \<open>(n, k, a, \<dots>)\<close>, and
  their entries at \<open>(f, l)\<close> are the deviance path and the coefficient matrix that the job of
  fold \<open>f\<close> and mixing ratio \<open>l\<close> returns (the folds being the outer loop of the job list). For
  five folds, three mixing ratios and ten alphas the shape of \<open>deviance_path_\<close> is \<open>(5, 3, 10)\<close>.
\<close>

theorem paths_reshaped_by_position:
  assumes fit: "fit C cfg X0 y0 sample_weight0 offset0 store self = (st, None)"
    and su: "set_up_and_check_fit_args C cfg X0 y0 sample_weight0 offset0
               = Inr (X, y, sample_weight, offset, weights_sum, P1, P2v)"
    and cl: "check_bounds C (lower_bounds cfg) (n_features X) = Inr lb"
    and cu: "check_bounds C (upper_bounds cfg) (n_features X) = Inr ub"
    and rows: "\<And>x_train y_train w_train as P2a P1a coef0 off lb ub A b.
            length (solve_regularization_path C x_train y_train w_train as P2a P1a coef0 off lb ub A b)
              = length as"
    and unst: "\<And>means stds ints coefs.
            length (snd (unstandardize_path C means stds ints coefs)) = length coefs"
  defines "l1s \<equiv> atleast_1d (l1_ratio cfg)"
    and "n \<equiv> cv_get_n_splits C"
    and "folds \<equiv> cv_split C X y"
  shows "\<exists>grid al dp cp.
    stored_alphas (alphas cfg) l1s grid = Inr al \<and> alphas' st = Some al \<and>
    deviance_path' st = Some dp \<and> coef_path' st = Some cp \<and>
    length folds = n \<and> length dp = n \<and> length cp = n \<and>
    (\<forall>f<n. length (dp ! f) = length l1s \<and> length (cp ! f) = length l1s \<and>
      (\<forall>l<length l1s.
         length (dp ! f ! l) = length (hd grid) \<and> length (cp ! f ! l) = length (hd grid) \<and>
         (\<exists>ip tr.
            snd (fit_path C cfg P1 P2v (stype_of C) self (fst (folds ! f)) (snd (folds ! f)) X y
                   (l1s ! l) (grid ! l) sample_weight offset lb ub (A_ineq cfg) (b_ineq cfg))
              = Inr (ip, cp ! f ! l, dp ! f ! l, tr))))"
proof -
  let ?F = "\<lambda>s (train_idx, test_idx, this_l1_ratio, this_alphas).
              fit_path C cfg P1 P2v (stype_of C) s train_idx test_idx X y this_l1_ratio
                this_alphas sample_weight offset lb ub (A_ineq cfg) (b_ineq cfg)"
  from fit_success_state [OF fit] su cl cu
  obtain s0 grid al s1 paths s2 dp
    where ag: "alpha_grid C cfg l1s X y sample_weight (emit EvSetUpArgs self) = (s0, grid)"
      and sa: "stored_alphas (alphas cfg) l1s grid = Inr al"
      and rj: "run_jobs ?F (s0\<lparr>alphas' := Some al\<rparr>) (jobs folds l1s grid) = (s1, Inr paths)"
      and asm: "assemble_paths C l1s grid s1 paths = (s2, Inr dp)"
      and st: "alphas' st = Some al" "deviance_path' st = Some dp" "coef_path' st = coef_path' s2"
    unfolding l1s_def folds_def by auto
  let ?k = "length l1s" and ?a = "length (hd grid)"
  let ?devs = "map (\<lambda>(i, c, d, t). d) paths" and ?coefs = "map (\<lambda>(i, c, d, t). c) paths"
  from assemble_paths_success [OF asm] obtain ip4 cp where
    gne: "grid \<noteq> []" and rc: "rect (concat ?coefs)"
    and r4: "reshape4 (concat (concat ?coefs)) n ?k ?a = Inr cp"
    and r3: "reshape3 (concat ?devs) n ?k ?a = Inr dp"
    and s2: "s2 = s1\<lparr>intercept_path' := Some ip4, coef_path' := Some cp, deviance_path' := Some dp,
              train_indices' := Some (map (\<lambda>(i, c, d, t). t) paths)\<rparr>"
    unfolding n_def by blast
  have cpst: "coef_path' st = Some cp" using st s2 by simp
  note pos = reshape4_shape(1-3) [OF r4]
  have lg: "length grid = ?k" by (rule alpha_grid_length [OF ag])
  have grow: "length (grid ! l) = ?a" if "l < ?k" for l
  proof (cases "?k = 1")
    case True
    then show ?thesis using that gne by (simp add: hd_conv_nth)
  next
    case False
    then have "rect grid" using stored_alphas_cases [OF sa lg gne] by simp
    moreover have "grid ! l \<in> set grid" using that lg by simp
    ultimately show ?thesis using rect_all by blast
  qed
  note rr = run_jobs_results [OF rj]
  have lp: "length paths = length folds * ?k" using rr jobs_length [OF lg] by simp
  have job: "\<exists>ip tr.
      snd (fit_path C cfg P1 P2v (stype_of C) self (fst (folds ! f)) (snd (folds ! f)) X y
             (l1s ! l) (grid ! l) sample_weight offset lb ub (A_ineq cfg) (b_ineq cfg))
        = Inr (ip, ?coefs ! (f * ?k + l), ?devs ! (f * ?k + l), tr)
      \<and> length (?coefs ! (f * ?k + l)) = ?a \<and> length (?devs ! (f * ?k + l)) = ?a"
    if f: "f < length folds" and l: "l < ?k" for f l
  proof -
    have i: "f * ?k + l < length paths" using index_bounds [OF f l] lp by simp
    then have ij: "f * ?k + l < length (jobs folds l1s grid)" using rr by simp
    from rr ij obtain si where
      "snd (?F si (jobs folds l1s grid ! (f * ?k + l))) = Inr (paths ! (f * ?k + l))" by blast
    then have "snd (fit_path C cfg P1 P2v (stype_of C) si (fst (folds ! f)) (snd (folds ! f)) X y
             (l1s ! l) (grid ! l) sample_weight offset lb ub (A_ineq cfg) (b_ineq cfg))
        = Inr (paths ! (f * ?k + l))"
      by (simp add: jobs_nth [OF lg f l])
    then have fp: "snd (fit_path C cfg P1 P2v (stype_of C) self (fst (folds ! f)) (snd (folds ! f))
             X y (l1s ! l) (grid ! l) sample_weight offset lb ub (A_ineq cfg) (b_ineq cfg))
        = Inr (paths ! (f * ?k + l))"
      using fit_path_result_indep [of C cfg P1 P2v "stype_of C" self _ _ X y _ _ sample_weight
              offset lb ub "A_ineq cfg" "b_ineq cfg" si]
      by simp
    obtain ip cj dev tr where p: "paths ! (f * ?k + l) = (ip, cj, dev, tr)"
      by (cases "paths ! (f * ?k + l)" rule: prod_cases4)
    from fit_path_lengths [OF fp [unfolded p] rows unst]
    have "length cj = ?a" "length dev = ?a" using grow [OF l] by simp_all
    moreover have "?coefs ! (f * ?k + l) = cj" "?devs ! (f * ?k + l) = dev"
      using i p by simp_all
    ultimately show ?thesis using fp p by auto
  qed
  have all: "length (?coefs ! i) = ?a \<and> length (?devs ! i) = ?a" if "i < length paths" for i
  proof -
    have "i div ?k < length folds" using that lp pos(2)
      by (simp add: less_mult_imp_div_less)
    moreover have "i mod ?k < ?k" using pos(2) by simp
    ultimately show ?thesis using job [of "i div ?k" "i mod ?k"] by simp
  qed
  have udev: "\<forall>d\<in>set ?devs. length d = ?a"
  proof
    fix d assume "d \<in> set ?devs"
    then obtain i where "i < length ?devs" "?devs ! i = d" unfolding in_set_conv_nth by blast
    then show "length d = ?a" using all [of i] by auto
  qed
  have ucoef: "\<forall>m\<in>set ?coefs. length m = ?a"
  proof
    fix m assume "m \<in> set ?coefs"
    then obtain i where "i < length ?coefs" "?coefs ! i = m" unfolding in_set_conv_nth by blast
    then show "length m = ?a" using all [of i] by auto
  qed
  have "length (concat ?devs) = length paths * ?a"
    using concat_uniform_length [OF udev] by simp
  moreover have "length (concat ?devs) = n * ?k * ?a"
    by (rule reshape3_shape(1) [OF r3])
  ultimately have "length folds * ?k * ?a = n * ?k * ?a"
    using lp by metis
  then have "length folds * (?k * ?a) = n * (?k * ?a)"
    by (metis mult.assoc)
  moreover have "0 < ?k * ?a" using pos by simp
  ultimately have fn: "length folds = n" by auto
  have ldv: "length ?devs = n * ?k" "length ?coefs = n * ?k" using lp fn by simp_all
  have entry: "length (dp ! f ! l) = ?a \<and> length (cp ! f ! l) = ?a \<and>
         (\<exists>ip tr.
            snd (fit_path C cfg P1 P2v (stype_of C) self (fst (folds ! f)) (snd (folds ! f)) X y
                   (l1s ! l) (grid ! l) sample_weight offset lb ub (A_ineq cfg) (b_ineq cfg))
              = Inr (ip, cp ! f ! l, dp ! f ! l, tr))"
    if f: "f < n" and l: "l < ?k" for f l
  proof -
    have d: "dp ! f ! l = ?devs ! (f * ?k + l)"
      by (rule reshape3_concat [OF r3 udev ldv(1) f l])
    have c: "cp ! f ! l = ?coefs ! (f * ?k + l)"
      by (rule reshape4_concat [OF r4 ucoef rc ldv(2) f l])
    show ?thesis using job [of f l] f l fn unfolding d c by blast
  qed
  have shape: "length (dp ! f) = ?k \<and> length (cp ! f) = ?k" if "f < n" for f
    using reshape3_shape(3) [OF r3 that] reshape4_shape(6) [OF r4 that] by simp
  have "length dp = n" "length cp = n"
    using reshape3_shape(2) [OF r3] reshape4_shape(5) [OF r4] by simp_all
  then show ?thesis
    using sa st(1,2) cpst fn shape entry by blast
qed


theorem paths_reshaped_by_position_witness:
  "fit toy (toy_config\<lparr>l1_ratio := L1Array [0, 1]\<rparr>) toy_X (Some toy_y) (Some [1, 3]) None False
     unfitted = (toy_fitted_two, None)
   \<and> (\<forall>x_train y_train w_train as P2a P1a coef0 off lb ub A b.
        length (solve_regularization_path toy x_train y_train w_train as P2a P1a coef0 off lb ub A b)
          = length as)
   \<and> (\<forall>means stds ints coefs.
        length (snd (unstandardize_path toy means stds ints coefs)) = length coefs)
   \<and> (\<exists>grid al dp cp.
        stored_alphas (alphas (toy_config\<lparr>l1_ratio := L1Array [0, 1]\<rparr>)) [0, 1] grid = Inr al \<and>
        alphas' toy_fitted_two = Some al \<and>
        deviance_path' toy_fitted_two = Some dp \<and> coef_path' toy_fitted_two = Some cp \<and>
        length (cv_split toy toy_X toy_y) = 2 \<and> length dp = 2 \<and> length cp = 2 \<and>
        (\<forall>f<2. length (dp ! f) = 2 \<and> length (cp ! f) = 2 \<and>
          (\<forall>l<2.
             length (dp ! f ! l) = length (hd grid) \<and> length (cp ! f ! l) = length (hd grid) \<and>
             (\<exists>ip tr.
                snd (fit_path toy (toy_config\<lparr>l1_ratio := L1Array [0, 1]\<rparr>) [1] (P2Vec [1])
                       (stype_of toy) unfitted
                       (fst (cv_split toy toy_X toy_y ! f)) (snd (cv_split toy toy_X toy_y ! f))
                       toy_X toy_y ([0, 1] ! l) (grid ! l) [1, 3] None None None
                       (A_ineq (toy_config\<lparr>l1_ratio := L1Array [0, 1]\<rparr>))
                       (b_ineq (toy_config\<lparr>l1_ratio := L1Array [0, 1]\<rparr>)))
                  = Inr (ip, cp ! f ! l, dp ! f ! l, tr)))))"
proof -
  let ?cfg = "toy_config\<lparr>l1_ratio := L1Array [0, 1]\<rparr>"
  have su: "set_up_and_check_fit_args toy ?cfg toy_X (Some toy_y) (Some [1, 3]) None
       = Inr (toy_X, toy_y, [1, 3], None, 1, [1], P2Vec [1])"
    by (simp add: toy_defs)
  have cl: "check_bounds toy (lower_bounds ?cfg) (n_features toy_X) = Inr None"
    by (simp add: toy_defs)
  have cu: "check_bounds toy (upper_bounds ?cfg) (n_features toy_X) = Inr None"
    by (simp add: toy_defs)
  have rows: "\<And>x_train y_train w_train as P2a P1a coef0 off lb ub A b.
        length (solve_regularization_path toy x_train y_train w_train as P2a P1a coef0 off lb ub A b)
          = length as"
    by (simp add: toy_def)
  have unst: "\<And>means stds ints coefs.
        length (snd (unstandardize_path toy means stds ints coefs)) = length coefs"
    by (simp add: toy_def)
  have n: "cv_get_n_splits toy = 2" by (simp add: toy_def)
  have k: "atleast_1d (l1_ratio ?cfg) = [0, 1]" by simp
  have k2: "length [0, 1 :: real] = 2" by simp
  note c = paths_reshaped_by_position [OF toy_run_two su cl cu rows unst, unfolded n k k2]
  show ?thesis
    by (intro conjI allI rows unst toy_run_two c)
qed

subsection \<open>The check of \<open>P2\<close>\<close>

text \<open>
  Claim C5, as stated, fails. With \<open>check_input\<close>, the indefinite \<open>P2 = [-1]\<close> and the two
  ratios \<open>[1, 0]\<close>, the ValueError is raised by the second job: the first job, whose penalty
  \<open>(1 - 1) * P2\<close> passes the check, has been started and has run its solver, and its work is
  lost. The check is made inside each job, after its data has been standardised.
\<close>

theorem p2_check_after_dispatch:
  "check_input (toy_config\<lparr>l1_ratio := L1Array [1, 0], P2 := PenVec [- 1]\<rparr>)
   \<and> \<not> is_str (P2 (toy_config\<lparr>l1_ratio := L1Array [1, 0], P2 := PenVec [- 1]\<rparr>))
   \<and> \<not> is_pos_semidef toy (P2Vec [- 1])
   \<and> fit toy (toy_config\<lparr>l1_ratio := L1Array [1, 0], P2 := PenVec [- 1]\<rparr>)
         toy_X (Some toy_y) (Some [1, 3]) None False unfitted
       = (unfitted\<lparr>alphas' := Some (A2 [[1, 1 / 2], [1, 1 / 2]]),
            col_means' := Some [3], col_stds' := Some [1],
            trace := [EvSetUpArgs, EvAlphaPath 1, EvAlphaPath 0, EvFitPath [1] [0] 1,
                      EvSolvePath, EvFitPath [1] [0] 0]\<rparr>,
          Some (ValueError ''1d array P2 must not have negative values.''))"
  by (simp add: fit_defs toy_defs upt_rec Let_def)

text \<open>
  Claim C5, amended. In a job that has sliced its data and standardised it, with
  \<open>check_input\<close> set and \<open>P2\<close> not a string, a standardised penalty \<open>P2_no_alpha\<close> that is not
  positive semidefinite makes the job raise a ValueError before its solver is called: the
  trace of the job holds its start only, and the fold's column statistics have been stored.
\<close>

theorem p2_check_inside_job:
  assumes "check_input cfg" and "\<not> is_str (P2 cfg)"
    and "fit_path_data X y sample_weight offset train_idx test_idx
           = Inr ((x_train0, y_train, w_train), test, offset_train, offset_test)"
    and "\<not> (family_power C = Some (3 / 2) \<and> \<not> link_is_log C)"
    and "standardize C x_train0 w_train (center_predictors C) (scale_predictors cfg) lb ub A
           (setup_p1 C P1 X 1 this_l1_ratio) (setup_p2 C P2v X stype 1 this_l1_ratio)
           = (x_train, means, stds, lb1, ub1, A_ineq1, P1_no_alpha, P2_no_alpha)"
    and "\<not> is_pos_semidef C P2_no_alpha"
  shows "fit_path C cfg P1 P2v stype self train_idx test_idx X y this_l1_ratio this_alphas
           sample_weight offset lb ub A b
         = (self\<lparr>col_means' := Some means, col_stds' := Some stds,
                  trace := trace self @ [EvFitPath train_idx test_idx this_l1_ratio]\<rparr>,
            Inl (ValueError (if p2_is_1d P2_no_alpha
                             then ''1d array P2 must not have negative values.''
                             else ''P2 must be positive semi-definite.'')))"
  using assms by (simp add: fit_path_def emit_def Let_def)

theorem p2_check_inside_job_witness:
  "check_input (toy_config\<lparr>P2 := PenVec [- 1]\<rparr>)
   \<and> \<not> is_str (P2 (toy_config\<lparr>P2 := PenVec [- 1]\<rparr>))
   \<and> \<not> is_pos_semidef toy (P2Vec [- 1])
   \<and> fit_path toy (toy_config\<lparr>P2 := PenVec [- 1]\<rparr>) [1] (P2Vec [- 1]) [''csc''] unfitted
         [1] [0] toy_X toy_y 0 [1, 1 / 2] [1, 3] None None None None None
       = (unfitted\<lparr>col_means' := Some [3], col_stds' := Some [1],
            trace := [EvFitPath [1] [0] 0]\<rparr>,
          Inl (ValueError ''1d array P2 must not have negative values.''))"
proof -
  let ?cfg = "toy_config\<lparr>P2 := PenVec [- 1]\<rparr>"
  have h1: "check_input ?cfg" by (simp add: toy_defs)
  have h2: "\<not> is_str (P2 ?cfg)" by (simp add: toy_defs)
  have h3: "fit_path_data toy_X toy_y [1, 3] None [1] [0]
              = Inr (([[3]], [2], [Fin 1]), ([[1]], [1], [Fin 1]), None, None)"
    by (simp add: fit_path_data_def fold_data_def take_idx_def take_offset_def
          normalize_weights_def np_div_def toy_defs)
  have h4: "\<not> (family_power toy = Some (3 / 2) \<and> \<not> link_is_log toy)"
    by (simp add: toy_defs)
  have h5: "standardize toy [[3]] [Fin 1] (center_predictors toy) (scale_predictors ?cfg)
              None None None (setup_p1 toy [1] toy_X 1 0) (setup_p2 toy (P2Vec [- 1]) toy_X [''csc''] 1 0)
            = ([[3]], [3], [1], None, None, None, [0], P2Vec [- 1])"
    by (simp add: toy_defs)
  have h6: "\<not> is_pos_semidef toy (P2Vec [- 1])" by (simp add: toy_defs)
  show ?thesis
    using h1 h2 h6
      p2_check_inside_job [where self = unfitted and this_alphas = "[1, 1 / 2]" and b = None, OF h1 h2 h3 h4 h5 h6]
    by (simp add: unfitted_def)
qed

end
